theory Spec2Isabelle
  imports Complex_Main
begin

section \<open>JavaScript numbers\<close>

text \<open>
  The coordinates of a pointer event and of a bounding rectangle are JavaScript numbers:
  IEEE 754 doubles. The detector applies to them \<^verbatim>\<open>-\<close>, \<^verbatim>\<open>Math.abs\<close>, \<^verbatim>\<open>Math.min\<close> and the
  strict equality of \<^verbatim>\<open>switch\<close>. A number is \<open>NaN\<close> (also what \<^verbatim>\<open>undefined\<close> becomes under
  \<^verbatim>\<open>-\<close>), an infinity, or a finite value, kept as the real number it denotes. The sign
  of zero is not kept (\<^verbatim>\<open>Math.abs\<close> erases it before any comparison).
\<close>

datatype jsnum = NaN | NegInf | Fin real | PosInf

text \<open>
  Rounding to the nearest double, ties to even. \<open>binade a\<close> is the exponent \<open>e\<close> with
  \<open>2^e \<le> a < 2^(e+1)\<close>, kept between -1022 (below it the doubles are subnormal and
  equally spaced) and 1023; it is found by a search upwards or downwards from zero. A
  double of that binade is a multiple of \<open>2^(e-52)\<close>. A result of \<open>2^1024\<close> or more
  overflows to an infinity.
\<close>

function binade_up :: "real \<Rightarrow> int \<Rightarrow> int" where
  "binade_up a e = (if e < 1023 \<and> 2 powi (e + 1) \<le> a then binade_up a (e + 1) else e)"
  by pat_completeness auto
termination
  by (relation "measure (\<lambda>(a, e). nat (1023 - e))") auto

function binade_down :: "real \<Rightarrow> int \<Rightarrow> int" where
  "binade_down a e = (if - 1022 < e \<and> a < 2 powi e then binade_down a (e - 1) else e)"
  by pat_completeness auto
termination
  by (relation "measure (\<lambda>(a, e). nat (e + 1022))") auto

declare binade_up.simps [simp del] binade_down.simps [simp del]

definition binade :: "real \<Rightarrow> int" where
  "binade a = (if 1 \<le> a then binade_up a 0 else binade_down a 0)"

definition round_half_even :: "real \<Rightarrow> int" where
  "round_half_even q =
     (let f = \<lfloor>q\<rfloor>; r = q - of_int f
      in if r < 1 / 2 then f else if 1 / 2 < r then f + 1 else if even f then f else f + 1)"

definition round_double :: "real \<Rightarrow> jsnum" where
  "round_double x =
     (if x = 0 then Fin 0
      else let a = \<bar>x\<bar>; u = 2 powi (binade a - 52);
               m = of_int (round_half_even (a / u)) * u
           in if 2 powi 1024 \<le> m then (if 0 < x then PosInf else NegInf)
              else Fin (if 0 < x then m else - m))"

text \<open>The operator \<^verbatim>\<open>-\<close>: the exact difference of two finite doubles, rounded once.\<close>

fun js_sub :: "jsnum \<Rightarrow> jsnum \<Rightarrow> jsnum" where
  "js_sub NaN _ = NaN"
| "js_sub _ NaN = NaN"
| "js_sub (Fin a) (Fin b) = round_double (a - b)"
| "js_sub (Fin a) PosInf = NegInf"
| "js_sub (Fin a) NegInf = PosInf"
| "js_sub PosInf PosInf = NaN"
| "js_sub PosInf _ = PosInf"
| "js_sub NegInf NegInf = NaN"
| "js_sub NegInf _ = NegInf"

fun Math_abs :: "jsnum \<Rightarrow> jsnum" where
  "Math_abs NaN = NaN"
| "Math_abs NegInf = PosInf"
| "Math_abs PosInf = PosInf"
| "Math_abs (Fin a) = Fin \<bar>a\<bar>"

text \<open>The comparison \<^verbatim>\<open><\<close>: false as soon as one side is \<open>NaN\<close>.\<close>

fun js_lt :: "jsnum \<Rightarrow> jsnum \<Rightarrow> bool" where
  "js_lt NaN _ = False"
| "js_lt _ NaN = False"
| "js_lt (Fin a) (Fin b) = (a < b)"
| "js_lt NegInf NegInf = False"
| "js_lt NegInf _ = True"
| "js_lt _ NegInf = False"
| "js_lt PosInf _ = False"
| "js_lt (Fin a) PosInf = True"

text \<open>Strict equality \<^verbatim>\<open>===\<close> on numbers, which \<^verbatim>\<open>switch\<close> uses: \<open>NaN\<close> equals nothing.\<close>

definition js_seq :: "jsnum \<Rightarrow> jsnum \<Rightarrow> bool" where
  "js_seq a b = (a \<noteq> NaN \<and> b \<noteq> NaN \<and> a = b)"

definition js_le :: "jsnum \<Rightarrow> jsnum \<Rightarrow> bool" where
  "js_le a b = (js_lt a b \<or> js_seq a b)"

text \<open>
  \<^verbatim>\<open>Math.min\<close> starts from \<open>+Infinity\<close>, returns \<open>NaN\<close> at the first \<open>NaN\<close> argument and
  otherwise keeps the smaller value.
\<close>

fun min_loop :: "jsnum \<Rightarrow> jsnum list \<Rightarrow> jsnum" where
  "min_loop lowest [] = lowest"
| "min_loop lowest (x # xs) =
     (if x = NaN then NaN else min_loop (if js_lt x lowest then x else lowest) xs)"

definition Math_min :: "jsnum list \<Rightarrow> jsnum" where
  "Math_min xs = min_loop PosInf xs"

section \<open>Edge-direction detector\<close>

text \<open>
  \<^verbatim>\<open>getMouseEnterDirection(e, el)\<close> reads \<^verbatim>\<open>e.clientX\<close>, \<^verbatim>\<open>e.clientY\<close> and the four edges of
  \<^verbatim>\<open>el.getBoundingClientRect()\<close>. The handlers pass \<^verbatim>\<open>e.target\<close> as \<^verbatim>\<open>el\<close>, so the event
  carries the rectangle of its target. \<open>getMouseEnterDirection\<close> is the function from the
  rectangle on: it returns one of four strings, or falls out of the \<^verbatim>\<open>switch\<close> and returns
  \<^verbatim>\<open>undefined\<close>: \<open>None\<close> here.
\<close>

record DOMRect =
  rect_top :: jsnum
  rect_bottom :: jsnum
  rect_left :: jsnum
  rect_right :: jsnum

record MouseEvent =
  clientX :: jsnum
  clientY :: jsnum
  target :: DOMRect

datatype direction = DirTop | DirBottom | DirLeft | DirRight

definition topEdgeDistance :: "MouseEvent \<Rightarrow> DOMRect \<Rightarrow> jsnum" where
  "topEdgeDistance e rect = Math_abs (js_sub (rect_top rect) (clientY e))"

definition bottomEdgeDistance :: "MouseEvent \<Rightarrow> DOMRect \<Rightarrow> jsnum" where
  "bottomEdgeDistance e rect = Math_abs (js_sub (rect_bottom rect) (clientY e))"

definition leftEdgeDistance :: "MouseEvent \<Rightarrow> DOMRect \<Rightarrow> jsnum" where
  "leftEdgeDistance e rect = Math_abs (js_sub (rect_left rect) (clientX e))"

definition rightEdgeDistance :: "MouseEvent \<Rightarrow> DOMRect \<Rightarrow> jsnum" where
  "rightEdgeDistance e rect = Math_abs (js_sub (rect_right rect) (clientX e))"

definition edgeDistances :: "MouseEvent \<Rightarrow> DOMRect \<Rightarrow> jsnum list" where
  "edgeDistances e rect =
     [topEdgeDistance e rect, bottomEdgeDistance e rect,
      leftEdgeDistance e rect, rightEdgeDistance e rect]"

definition getMouseEnterDirection :: "MouseEvent \<Rightarrow> DOMRect \<Rightarrow> direction option" where
  "getMouseEnterDirection e rect =
     (let m = Math_min (edgeDistances e rect) in
      if js_seq m (topEdgeDistance e rect) then Some DirTop
      else if js_seq m (bottomEdgeDistance e rect) then Some DirBottom
      else if js_seq m (leftEdgeDistance e rect) then Some DirLeft
      else if js_seq m (rightEdgeDistance e rect) then Some DirRight
      else None)"

text \<open>
  The whole call. The function first calls \<^verbatim>\<open>el.getBoundingClientRect()\<close>; the handlers
  pass \<^verbatim>\<open>e.target as HTMLElement\<close>, a cast that lets \<^verbatim>\<open>null\<close> through, and a method call on
  \<^verbatim>\<open>null\<close> throws. This is the only statement of the function that can throw: the
  remaining ones read fields of objects that exist and compute on numbers.
\<close>

datatype js_exception = TypeError

datatype element_ref = NullRef | Element DOMRect

fun getBoundingClientRect :: "element_ref \<Rightarrow> js_exception + DOMRect" where
  "getBoundingClientRect NullRef = Inl TypeError"
| "getBoundingClientRect (Element rect) = Inr rect"

definition getMouseEnterDirection_call ::
  "MouseEvent \<Rightarrow> element_ref \<Rightarrow> js_exception + direction option" where
  "getMouseEnterDirection_call e el =
     (case getBoundingClientRect el of
        Inl exn \<Rightarrow> Inl exn
      | Inr rect \<Rightarrow> Inr (getMouseEnterDirection e rect))"

text \<open>The distance that belongs to a direction, and the order of the \<^verbatim>\<open>case\<close> labels.\<close>

fun edgeDistance :: "MouseEvent \<Rightarrow> DOMRect \<Rightarrow> direction \<Rightarrow> jsnum" where
  "edgeDistance e rect DirTop = topEdgeDistance e rect"
| "edgeDistance e rect DirBottom = bottomEdgeDistance e rect"
| "edgeDistance e rect DirLeft = leftEdgeDistance e rect"
| "edgeDistance e rect DirRight = rightEdgeDistance e rect"

fun priority :: "direction \<Rightarrow> nat" where
  "priority DirTop = 0"
| "priority DirBottom = 1"
| "priority DirLeft = 2"
| "priority DirRight = 3"

text \<open>The opposite compass direction.\<close>

fun opposite :: "direction \<Rightarrow> direction" where
  "opposite DirTop = DirBottom"
| "opposite DirBottom = DirTop"
| "opposite DirLeft = DirRight"
| "opposite DirRight = DirLeft"


section \<open>Animation engine\<close>

text \<open>
  The components drive an external animation engine through a timeline:
  \<^verbatim>\<open>gsap.timeline({defaults})\<close>, \<^verbatim>\<open>tl.set(target, {attr})\<close> and
  \<^verbatim>\<open>tl.to(target, {attr}, position)\<close>. A timeline is modelled by the tweens scheduled on
  it, each with its start time on the timeline. The two targets are the nodes held by
  \<^verbatim>\<open>svgRef\<close> and \<^verbatim>\<open>pathRef\<close>.
\<close>

datatype target_node = SvgNode | PathNode

record tween =
  tw_target :: target_node
  tw_attr :: string
  tw_value :: string
  tw_start :: real
  tw_duration :: real
  tw_ease :: string

record timeline =
  default_duration :: real
  default_ease :: string
  children :: "tween list"

text \<open>
  The position parameter of \<^verbatim>\<open>tl.to\<close>: the number \<^verbatim>\<open>0\<close> is \<open>AtTime 0\<close>, the string
  \<^verbatim>\<open>'-=70%'\<close> is \<open>RelEndPercent (-70)\<close>.
\<close>

datatype position = AtTime real | RelEndPercent real

text \<open>
  Modelled from the spec: \<^verbatim>\<open>gsap.timeline({defaults: {duration, ease}})\<close>, missing from
  the sources, makes an empty timeline that keeps the two defaults.
\<close>

definition gsap_timeline :: "real \<Rightarrow> string \<Rightarrow> timeline" where
  "gsap_timeline dur ease = \<lparr>default_duration = dur, default_ease = ease, children = []\<rparr>"

text \<open>
  Modelled from the spec: the engine is an external collaborator whose code is not part
  of the sources. The end of a timeline is the latest end of its tweens.
\<close>

definition timeline_end :: "timeline \<Rightarrow> real" where
  "timeline_end tline = foldl max 0 (map (\<lambda>w. tw_start w + tw_duration w) (children tline))"

text \<open>
  Modelled from the spec: the engine's resolution of a position, missing from the
  sources. A number is an absolute time on the timeline; a relative percentage is
  measured from the end of the tweens already scheduled, as that percentage of the
  duration of the tween being inserted ("percentage of duration before the end of the
  concurrent group").
\<close>

fun resolve_position :: "timeline \<Rightarrow> real \<Rightarrow> position \<Rightarrow> real" where
  "resolve_position tline dur (AtTime t) = t"
| "resolve_position tline dur (RelEndPercent pc) = timeline_end tline + pc / 100 * dur"

text \<open>
  Modelled from the spec: \<^verbatim>\<open>tl.set\<close>, missing from the sources, sets the attribute
  without tweening: a tween of duration zero at the current end of the timeline.
\<close>

definition tl_set :: "target_node \<Rightarrow> string \<Rightarrow> string \<Rightarrow> timeline \<Rightarrow> timeline" where
  "tl_set node attr v tline =
     tline\<lparr>children := children tline @
       [\<lparr>tw_target = node, tw_attr = attr, tw_value = v, tw_start = timeline_end tline,
         tw_duration = 0, tw_ease = default_ease tline\<rparr>]\<rparr>"

text \<open>
  Modelled from the spec: \<^verbatim>\<open>tl.to\<close>, missing from the sources, tweens the attribute to
  the value over the timeline's default duration with its default easing, from the
  resolved position.
\<close>

definition tl_to :: "target_node \<Rightarrow> string \<Rightarrow> string \<Rightarrow> position \<Rightarrow> timeline \<Rightarrow> timeline" where
  "tl_to node attr v pos tline =
     tline\<lparr>children := children tline @
       [\<lparr>tw_target = node, tw_attr = attr, tw_value = v,
         tw_start = resolve_position tline (default_duration tline) pos,
         tw_duration = default_duration tline, tw_ease = default_ease tline\<rparr>]\<rparr>"

section \<open>ViewBox and path constants\<close>

text \<open>Both source files declare the same fourteen strings.\<close>

definition vbCenter :: string where "vbCenter = ''0 0 100 100''"
definition vbTop :: string where "vbTop = ''0 101 100 100''"
definition vbBottom :: string where "vbBottom = ''0 -101 100 100''"
definition vbLeft :: string where "vbLeft = ''101 0 100 100''"
definition vbRight :: string where "vbRight = ''-101 0 100 100''"

definition squarePath :: string where
  "squarePath = ''M 0 0 Q 50 0 100 0 Q 100 50 100 100 Q 50 100 0 100 Q 0 50 0 0''"
definition concaveTopPath :: string where
  "concaveTopPath = ''M 0 0 Q 50 50 100 0 Q 100 50 100 100 Q 50 100 0 100 Q 0 50 0 0''"
definition concaveRightPath :: string where
  "concaveRightPath = ''M 0 0 Q 50 0 100 0 Q 50 50 100 100 Q 50 100 0 100 Q 0 50 0 0''"
definition concaveBottomPath :: string where
  "concaveBottomPath = ''M 0 0 Q 50 0 100 0 Q 100 50 100 100 Q 50 50 0 100 Q 0 50 0 0''"
definition concaveLeftPath :: string where
  "concaveLeftPath = ''M 0 0 Q 50 0 100 0 Q 100 50 100 100 Q 50 100 0 100 Q 50 50 0 0''"
definition convexTopPath :: string where
  "convexTopPath = ''M 0 0 Q 50 -50 100 0 Q 100 50 100 100 Q 50 100 0 100 Q 0 50 0 0''"
definition convexBottomPath :: string where
  "convexBottomPath = ''M 0 0 Q 50 0 100 0 Q 100 50 100 100 Q 50 150 0 100 Q 0 50 0 0''"
definition convexLeftPath :: string where
  "convexLeftPath = ''M 0 0 Q 50 0 100 0 Q 100 50 100 100 Q 50 100 0 100 Q -50 50 0 0''"
definition convexRightPath :: string where
  "convexRightPath = ''M 0 0 Q 50 0 100 0 Q 150 50 100 100 Q 50 100 0 100 Q 0 50 0 0''"

section \<open>Overlay state\<close>

text \<open>
  What a component instance owns: the two attributes it writes directly and the
  timelines it has started, in order. Each entry of \<open>runs\<close> is one call of
  \<^verbatim>\<open>animation\<close>, with its three arguments and the timeline the call built. How the
  engine moves the attributes while a timeline plays is outside the model.
\<close>

record anim_run =
  vbFrom :: string
  vbTo :: string
  drawPath :: string
  run_timeline :: timeline

record overlay =
  svg_viewBox :: string
  path_d :: "string option"
  runs :: "anim_run list"

definition driver_calls :: "'a overlay_scheme \<Rightarrow> (string \<times> string \<times> string) list" where
  "driver_calls s = map (\<lambda>r. (vbFrom r, vbTo r, drawPath r)) (runs s)"

section \<open>Wrapper component\<close>

datatype tab_direction = TabUp | TabDown | TabLeft | TabRight

text \<open>The props that reach the logic; \<^verbatim>\<open>fillZ\<close>, \<^verbatim>\<open>as\<close> and \<^verbatim>\<open>children\<close> only reach the markup.\<close>

record HoverFillProps =
  fillColor :: string
  fillOpacity :: real
  fillDuration :: real
  fillPin :: bool
  fillInvertColors :: bool
  fillOnTab :: bool
  fillTabEnter :: tab_direction
  fillTabLeave :: tab_direction
  fillInvert :: bool

definition default_props :: HoverFillProps where
  "default_props =
     \<lparr>fillColor = ''white'', fillOpacity = 1, fillDuration = 0.5, fillPin = False,
      fillInvertColors = False, fillOnTab = False, fillTabEnter = TabUp,
      fillTabLeave = TabDown, fillInvert = False\<rparr>"

record wrapper_state = overlay +
  isFilled :: bool

definition animation ::
  "HoverFillProps \<Rightarrow> string \<Rightarrow> string \<Rightarrow> string \<Rightarrow> 'a overlay_scheme \<Rightarrow> 'a overlay_scheme" where
  "animation p vb_from vb_to draw_path s =
     (let tl0 = gsap_timeline (fillDuration p) ''power2.out'';
          tl1 = tl_set SvgNode ''viewBox'' vb_from tl0;
          tl2 = tl_to SvgNode ''viewBox'' vb_to (AtTime 0) tl1;
          tl3 = tl_to PathNode ''d'' draw_path (AtTime 0) tl2;
          tl4 = tl_to PathNode ''d'' squarePath (RelEndPercent (- 70)) tl3
      in s\<lparr>runs := runs s @
           [\<lparr>vbFrom = vb_from, vbTo = vb_to, drawPath = draw_path, run_timeline = tl4\<rparr>]\<rparr>)"

definition slideDownOut :: "HoverFillProps \<Rightarrow> 'a overlay_scheme \<Rightarrow> 'a overlay_scheme" where
  "slideDownOut p s = animation p vbCenter vbBottom concaveTopPath s"

definition slideUpIn :: "HoverFillProps \<Rightarrow> 'a overlay_scheme \<Rightarrow> 'a overlay_scheme" where
  "slideUpIn p s = animation p vbBottom vbCenter convexTopPath s"

definition slideUpOut :: "HoverFillProps \<Rightarrow> 'a overlay_scheme \<Rightarrow> 'a overlay_scheme" where
  "slideUpOut p s = animation p vbCenter vbTop concaveBottomPath s"

definition slideDownIn :: "HoverFillProps \<Rightarrow> 'a overlay_scheme \<Rightarrow> 'a overlay_scheme" where
  "slideDownIn p s = animation p vbTop vbCenter convexBottomPath s"

definition slideLeftIn :: "HoverFillProps \<Rightarrow> 'a overlay_scheme \<Rightarrow> 'a overlay_scheme" where
  "slideLeftIn p s = animation p vbLeft vbCenter convexRightPath s"

definition slideRightIn :: "HoverFillProps \<Rightarrow> 'a overlay_scheme \<Rightarrow> 'a overlay_scheme" where
  "slideRightIn p s = animation p vbRight vbCenter convexLeftPath s"

definition slideLeftOut :: "HoverFillProps \<Rightarrow> 'a overlay_scheme \<Rightarrow> 'a overlay_scheme" where
  "slideLeftOut p s = animation p vbCenter vbLeft concaveRightPath s"

definition slideRightOut :: "HoverFillProps \<Rightarrow> 'a overlay_scheme \<Rightarrow> 'a overlay_scheme" where
  "slideRightOut p s = animation p vbCenter vbRight concaveLeftPath s"

text \<open>
  The filled flag is React state. A handler is a function of the state its render shows:
  \<open>isFilled s\<close> is the flag that render captured, and the flag of the result is the value
  passed to \<^verbatim>\<open>setIsFilled\<close>, which the next render shows.
\<close>

text \<open>
  Mount: the markup is rendered with \<^verbatim>\<open>viewBox="0 0 0 0"\<close> and a path without \<^verbatim>\<open>d\<close>,
  \<^verbatim>\<open>useState(false)\<close>; then the \<^verbatim>\<open>useGSAP\<close> callback runs once.
\<close>

definition initial_render :: wrapper_state where
  "initial_render = \<lparr>svg_viewBox = ''0 0 0 0'', path_d = None, runs = [], isFilled = False\<rparr>"

definition useGSAP_setup :: "HoverFillProps \<Rightarrow> wrapper_state \<Rightarrow> wrapper_state" where
  "useGSAP_setup p s =
     s\<lparr>svg_viewBox := (if fillPin p then vbCenter else vbTop), path_d := Some squarePath\<rparr>"

definition mount :: "HoverFillProps \<Rightarrow> wrapper_state" where
  "mount p = useGSAP_setup p initial_render"

definition handleMouseEnter :: "HoverFillProps \<Rightarrow> MouseEvent \<Rightarrow> wrapper_state \<Rightarrow> wrapper_state" where
  "handleMouseEnter p e s =
     (if isFilled s then s
      else let s1 = s\<lparr>isFilled := True\<rparr> in
        if fillPin p then s1
        else let mouseDirection = getMouseEnterDirection e (target e) in
          if mouseDirection = Some DirBottom
            then (if fillInvert p then slideDownIn p s1 else slideUpIn p s1)
          else if mouseDirection = Some DirTop
            then (if fillInvert p then slideUpIn p s1 else slideDownIn p s1)
          else if mouseDirection = Some DirLeft
            then (if fillInvert p then slideRightIn p s1 else slideLeftIn p s1)
          else (if fillInvert p then slideLeftIn p s1 else slideRightIn p s1))"

definition handleMouseLeave :: "HoverFillProps \<Rightarrow> MouseEvent \<Rightarrow> wrapper_state \<Rightarrow> wrapper_state" where
  "handleMouseLeave p e s =
     (if \<not> isFilled s then s
      else let s1 = s\<lparr>isFilled := False\<rparr> in
        if fillPin p then s1
        else let mouseDirection = getMouseEnterDirection e (target e) in
          if mouseDirection = Some DirBottom
            then (if fillInvert p then slideUpOut p s1 else slideDownOut p s1)
          else if mouseDirection = Some DirTop
            then (if fillInvert p then slideDownOut p s1 else slideUpOut p s1)
          else if mouseDirection = Some DirLeft
            then (if fillInvert p then slideLeftOut p s1 else slideLeftOut p s1)
          else (if fillInvert p then slideLeftOut p s1 else slideRightOut p s1))"

definition handleFocus :: "HoverFillProps \<Rightarrow> wrapper_state \<Rightarrow> wrapper_state" where
  "handleFocus p s =
     (if isFilled s then s
      else let s1 = s\<lparr>isFilled := True\<rparr> in
        if fillPin p then s1 else slideUpIn p s1)"

definition handleBlur :: "HoverFillProps \<Rightarrow> wrapper_state \<Rightarrow> wrapper_state" where
  "handleBlur p s =
     (if \<not> isFilled s then s
      else let s1 = s\<lparr>isFilled := False\<rparr> in
        if fillPin p then s1 else slideDownOut p s1)"

text \<open>
  The event props of the rendered host element. The markup passes \<^verbatim>\<open>onMouseEnter\<close> and
  \<^verbatim>\<open>onMouseLeave\<close>, then spreads the focus pair when \<^verbatim>\<open>fillOnTab\<close> holds, then spreads
  the caller's remaining props, so a later entry replaces an earlier one. A caller's
  handler is opaque: it is known by a number only.
\<close>

datatype event_prop = OnMouseEnter | OnMouseLeave | OnFocus | OnBlur

datatype listener =
  HandleMouseEnter | HandleMouseLeave | HandleFocus | HandleBlur | CallerHandler nat

definition host_props :: "HoverFillProps \<Rightarrow> (event_prop \<rightharpoonup> nat) \<Rightarrow> (event_prop \<rightharpoonup> listener)" where
  "host_props p props =
     [OnMouseEnter \<mapsto> HandleMouseEnter, OnMouseLeave \<mapsto> HandleMouseLeave]
       ++ (if fillOnTab p then [OnFocus \<mapsto> HandleFocus, OnBlur \<mapsto> HandleBlur] else Map.empty)
       ++ (\<lambda>k. map_option CallerHandler (props k))"


text \<open>
  An event on the host element runs the listener registered under its prop, if there is
  one. A caller's handler does not touch the component's state.
\<close>

datatype host_event = MouseEnterEv MouseEvent | MouseLeaveEv MouseEvent | FocusEv | BlurEv

fun prop_of :: "host_event \<Rightarrow> event_prop" where
  "prop_of (MouseEnterEv e) = OnMouseEnter"
| "prop_of (MouseLeaveEv e) = OnMouseLeave"
| "prop_of FocusEv = OnFocus"
| "prop_of BlurEv = OnBlur"

definition dispatch ::
  "HoverFillProps \<Rightarrow> (event_prop \<rightharpoonup> nat) \<Rightarrow> host_event \<Rightarrow> wrapper_state \<Rightarrow> wrapper_state" where
  "dispatch p props ev s =
     (case (host_props p props (prop_of ev), ev) of
        (Some HandleMouseEnter, MouseEnterEv e) \<Rightarrow> handleMouseEnter p e s
      | (Some HandleMouseLeave, MouseLeaveEv e) \<Rightarrow> handleMouseLeave p e s
      | (Some HandleFocus, FocusEv) \<Rightarrow> handleFocus p s
      | (Some HandleBlur, BlurEv) \<Rightarrow> handleBlur p s
      | _ \<Rightarrow> s)"

section \<open>Hook component\<close>

text \<open>
  The second source file: the component that listens on the parent of its SVG. Its
  definitions carry the suffix \<open>_hook\<close> where the two files share a name. Its \<^verbatim>\<open>invert\<close>
  prop is the colour inversion; it has no prop for the direction. \<^verbatim>\<open>z\<close> only reaches the
  markup. The model takes the SVG as mounted under a parent, so that the effect
  registers its two listeners.
\<close>

record UseHoverFillProps =
  color :: string
  opacity :: real
  duration :: real
  pinned :: bool
  invert :: bool

record hook_state = overlay +
  hovered :: bool

definition vbInit :: "UseHoverFillProps \<Rightarrow> bool \<Rightarrow> string" where
  "vbInit p hovered_current = (if pinned p then vbCenter else if hovered_current then vbCenter else vbTop)"

definition mount_hook :: "UseHoverFillProps \<Rightarrow> hook_state" where
  "mount_hook p =
     \<lparr>svg_viewBox = vbInit p False, path_d = Some squarePath, runs = [], hovered = False\<rparr>"

definition animation_hook ::
  "UseHoverFillProps \<Rightarrow> string \<Rightarrow> string \<Rightarrow> string \<Rightarrow> 'a overlay_scheme \<Rightarrow> 'a overlay_scheme" where
  "animation_hook p vb_from vb_to draw_path s =
     (let tl0 = gsap_timeline (duration p) ''power2.out'';
          tl1 = tl_set SvgNode ''viewBox'' vb_from tl0;
          tl1' = tl_set PathNode ''d'' squarePath tl1;
          tl2 = tl_to SvgNode ''viewBox'' vb_to (AtTime 0) tl1';
          tl3 = tl_to PathNode ''d'' draw_path (AtTime 0) tl2;
          tl4 = tl_to PathNode ''d'' squarePath (RelEndPercent (- 70)) tl3
      in s\<lparr>runs := runs s @
           [\<lparr>vbFrom = vb_from, vbTo = vb_to, drawPath = draw_path, run_timeline = tl4\<rparr>]\<rparr>)"

definition slideDownOut_hook :: "UseHoverFillProps \<Rightarrow> 'a overlay_scheme \<Rightarrow> 'a overlay_scheme" where
  "slideDownOut_hook p s = animation_hook p vbCenter vbBottom concaveTopPath s"

definition slideUpIn_hook :: "UseHoverFillProps \<Rightarrow> 'a overlay_scheme \<Rightarrow> 'a overlay_scheme" where
  "slideUpIn_hook p s = animation_hook p vbBottom vbCenter convexTopPath s"

definition slideUpOut_hook :: "UseHoverFillProps \<Rightarrow> 'a overlay_scheme \<Rightarrow> 'a overlay_scheme" where
  "slideUpOut_hook p s = animation_hook p vbCenter vbTop concaveBottomPath s"

definition slideDownIn_hook :: "UseHoverFillProps \<Rightarrow> 'a overlay_scheme \<Rightarrow> 'a overlay_scheme" where
  "slideDownIn_hook p s = animation_hook p vbTop vbCenter convexBottomPath s"

definition slideLeftIn_hook :: "UseHoverFillProps \<Rightarrow> 'a overlay_scheme \<Rightarrow> 'a overlay_scheme" where
  "slideLeftIn_hook p s = animation_hook p vbLeft vbCenter convexRightPath s"

definition slideRightIn_hook :: "UseHoverFillProps \<Rightarrow> 'a overlay_scheme \<Rightarrow> 'a overlay_scheme" where
  "slideRightIn_hook p s = animation_hook p vbRight vbCenter convexLeftPath s"

definition slideLeftOut_hook :: "UseHoverFillProps \<Rightarrow> 'a overlay_scheme \<Rightarrow> 'a overlay_scheme" where
  "slideLeftOut_hook p s = animation_hook p vbCenter vbLeft concaveRightPath s"

definition slideRightOut_hook :: "UseHoverFillProps \<Rightarrow> 'a overlay_scheme \<Rightarrow> 'a overlay_scheme" where
  "slideRightOut_hook p s = animation_hook p vbCenter vbRight concaveLeftPath s"

definition handleMouseEnter_hook :: "UseHoverFillProps \<Rightarrow> MouseEvent \<Rightarrow> hook_state \<Rightarrow> hook_state" where
  "handleMouseEnter_hook p e s =
     (if hovered s then s
      else let s1 = s\<lparr>hovered := True\<rparr> in
        if pinned p then s1
        else let mouseDirection = getMouseEnterDirection e (target e) in
          if mouseDirection = Some DirBottom then slideUpIn_hook p s1
          else if mouseDirection = Some DirTop then slideDownIn_hook p s1
          else if mouseDirection = Some DirLeft then slideLeftIn_hook p s1
          else if mouseDirection = Some DirRight then slideRightIn_hook p s1
          else s1)"

definition handleMouseLeave_hook :: "UseHoverFillProps \<Rightarrow> MouseEvent \<Rightarrow> hook_state \<Rightarrow> hook_state" where
  "handleMouseLeave_hook p e s =
     (if \<not> hovered s then s
      else let s1 = s\<lparr>hovered := False\<rparr> in
        if pinned p then s1
        else let mouseDirection = getMouseEnterDirection e (target e) in
          if mouseDirection = Some DirBottom then slideDownOut_hook p s1
          else if mouseDirection = Some DirTop then slideUpOut_hook p s1
          else if mouseDirection = Some DirLeft then slideLeftOut_hook p s1
          else if mouseDirection = Some DirRight then slideRightOut_hook p s1
          else s1)"

section \<open>Sequences of pointer events\<close>

datatype pointer_event = Enter MouseEvent | Leave MouseEvent

fun wrapper_step :: "HoverFillProps \<Rightarrow> wrapper_state \<Rightarrow> pointer_event \<Rightarrow> wrapper_state" where
  "wrapper_step p s (Enter e) = handleMouseEnter p e s"
| "wrapper_step p s (Leave e) = handleMouseLeave p e s"

fun hook_step :: "UseHoverFillProps \<Rightarrow> hook_state \<Rightarrow> pointer_event \<Rightarrow> hook_state" where
  "hook_step p s (Enter e) = handleMouseEnter_hook p e s"
| "hook_step p s (Leave e) = handleMouseLeave_hook p e s"

text \<open>
  The wrapper keeps its flag in \<^verbatim>\<open>useState\<close>: the handlers of a render read the value that
  render captured, and \<^verbatim>\<open>setIsFilled\<close> only changes the value the next render will show.
  An instance is therefore the captured flag together with the state React holds (the
  overlay, which handlers write at once, and the flag last set). A handler that returns
  at its guard has not called \<^verbatim>\<open>setIsFilled\<close>; otherwise it has set the negation of the
  flag it read.
\<close>

record wrapper_instance =
  closure_isFilled :: bool
  held :: wrapper_state

datatype wrapper_action = Handle pointer_event | Rerender

definition mount_instance :: "HoverFillProps \<Rightarrow> wrapper_instance" where
  "mount_instance p = \<lparr>closure_isFilled = isFilled (mount p), held = mount p\<rparr>"

fun instance_step :: "HoverFillProps \<Rightarrow> wrapper_instance \<Rightarrow> wrapper_action \<Rightarrow> wrapper_instance" where
  "instance_step p w Rerender = w\<lparr>closure_isFilled := isFilled (held w)\<rparr>"
| "instance_step p w (Handle ev) =
     (let s = wrapper_step p ((held w)\<lparr>isFilled := closure_isFilled w\<rparr>) ev
      in w\<lparr>held := (if isFilled s = closure_isFilled w
                      then s\<lparr>isFilled := isFilled (held w)\<rparr> else s)\<rparr>)"

definition run_wrapper :: "HoverFillProps \<Rightarrow> wrapper_action list \<Rightarrow> wrapper_instance" where
  "run_wrapper p acts = foldl (instance_step p) (mount_instance p) acts"

text \<open>The wrapper renders again after each event, before the next one is handled.\<close>

definition rendered_after_each :: "pointer_event list \<Rightarrow> wrapper_action list" where
  "rendered_after_each evs = concat (map (\<lambda>ev. [Handle ev, Rerender]) evs)"

text \<open>
  The hook component keeps its flag in a ref, which its handlers read and write at once,
  so a render between two events changes nothing for them.
\<close>

definition run_hook :: "UseHoverFillProps \<Rightarrow> pointer_event list \<Rightarrow> hook_state" where
  "run_hook p evs = foldl (hook_step p) (mount_hook p) evs"

text \<open>The hook configuration with the same values as a wrapper configuration.\<close>

definition hook_props_of :: "HoverFillProps \<Rightarrow> UseHoverFillProps" where
  "hook_props_of p =
     \<lparr>color = fillColor p, opacity = fillOpacity p, duration = fillDuration p,
      pinned = fillPin p, invert = fillInvertColors p\<rparr>"

fun event_of :: "pointer_event \<Rightarrow> MouseEvent" where
  "event_of (Enter e) = e"
| "event_of (Leave e) = e"

definition detects :: "pointer_event \<Rightarrow> bool" where
  "detects ev = (getMouseEnterDirection (event_of ev) (target (event_of ev)) \<noteq> None)"

text \<open>What an observer compares between the two components: the filled flag, the
  arguments of the driver calls so far, and the two attributes.\<close>

definition same_overlay :: "wrapper_state \<Rightarrow> hook_state \<Rightarrow> bool" where
  "same_overlay ws hs =
     (isFilled ws = hovered hs \<and> driver_calls ws = driver_calls hs
      \<and> svg_viewBox ws = svg_viewBox hs \<and> path_d ws = path_d hs)"

section \<open>Reading the viewBox and path strings\<close>

text \<open>
  The strings are read as SVG reads them: a viewBox is \<^verbatim>\<open>min-x min-y width height\<close>; the
  paths are a move \<^verbatim>\<open>M x y\<close> followed by quadratic curves \<^verbatim>\<open>Q cx cy x y\<close>. All numbers in
  the constants are integers separated by single spaces.
\<close>

fun words_of :: "string \<Rightarrow> string list" where
  "words_of [] = [[]]"
| "words_of (c # cs) =
     (if c = CHR '' '' then [] # words_of cs
      else (case words_of cs of [] \<Rightarrow> [[c]] | w # ws \<Rightarrow> (c # w) # ws))"

fun index_in :: "'a list \<Rightarrow> 'a \<Rightarrow> int option" where
  "index_in [] c = None"
| "index_in (x # xs) c = (if x = c then Some 0 else map_option (\<lambda>k. k + 1) (index_in xs c))"

definition digit_of :: "char \<Rightarrow> int option" where
  "digit_of c = index_in ''0123456789'' c"

fun parse_digits :: "int \<Rightarrow> string \<Rightarrow> int option" where
  "parse_digits acc [] = Some acc"
| "parse_digits acc (c # cs) =
     (case digit_of c of None \<Rightarrow> None | Some k \<Rightarrow> parse_digits (10 * acc + k) cs)"

fun parse_int :: "string \<Rightarrow> int option" where
  "parse_int [] = None"
| "parse_int (c # cs) =
     (if c = CHR ''-'' then (if cs = [] then None else map_option uminus (parse_digits 0 cs))
      else parse_digits 0 (c # cs))"

definition parse_viewBox :: "string \<Rightarrow> (int \<times> int \<times> int \<times> int) option" where
  "parse_viewBox s =
     (case map parse_int (words_of s) of
        [Some x, Some y, Some w, Some h] \<Rightarrow> Some (x, y, w, h)
      | _ \<Rightarrow> None)"

type_synonym point = "int \<times> int"

fun parse_quads :: "string list \<Rightarrow> (point \<times> point) list option" where
  "parse_quads [] = Some []"
| "parse_quads (q # a # b # c # d # rest) =
     (if q = ''Q'' then
        (case (parse_int a, parse_int b, parse_int c, parse_int d, parse_quads rest) of
           (Some ca, Some cb, Some x, Some y, Some qs) \<Rightarrow> Some (((ca, cb), (x, y)) # qs)
         | _ \<Rightarrow> None)
      else None)"
| "parse_quads _ = None"

text \<open>A parsed path: the start point and, for each curve, its control point and end point.\<close>

definition parse_path :: "string \<Rightarrow> (point \<times> (point \<times> point) list) option" where
  "parse_path s =
     (case words_of s of
        m # a # b # rest \<Rightarrow>
          (if m = ''M'' then
             (case (parse_int a, parse_int b, parse_quads rest) of
                (Some x, Some y, Some qs) \<Rightarrow> Some ((x, y), qs)
              | _ \<Rightarrow> None)
           else None)
      | _ \<Rightarrow> None)"

text \<open>All points that define the outline; a quadratic curve stays inside their hull.\<close>

fun outline_points :: "point \<times> (point \<times> point) list \<Rightarrow> point list" where
  "outline_points (start, qs) = start # concat (map (\<lambda>(c, e). [c, e]) qs)"

text \<open>The corners of the outline, in order, and whether each curve is a straight edge
  (its control point is the midpoint of its ends).\<close>

fun corners :: "point \<times> (point \<times> point) list \<Rightarrow> point list" where
  "corners (start, qs) = start # map snd qs"

fun straight_edges :: "point \<Rightarrow> (point \<times> point) list \<Rightarrow> bool" where
  "straight_edges p0 [] = True"
| "straight_edges p0 ((c, p1) # qs) =
     (2 * fst c = fst p0 + fst p1 \<and> 2 * snd c = snd p0 + snd p1 \<and> straight_edges p1 qs)"

fun window_corners :: "int \<times> int \<times> int \<times> int \<Rightarrow> point list" where
  "window_corners (x, y, w, h) = [(x, y), (x + w, y), (x + w, y + h), (x, y + h), (x, y)]"

text \<open>The outline is exactly the border of the window, so the filled shape covers it.\<close>

definition covers_window :: "string \<Rightarrow> string \<Rightarrow> bool" where
  "covers_window path vb =
     (case (parse_path path, parse_viewBox vb) of
        (Some pth, Some win) \<Rightarrow>
          corners pth = window_corners win \<and> straight_edges (fst pth) (snd pth)
      | _ \<Rightarrow> False)"

text \<open>The whole outline lies strictly above the window (smaller \<open>y\<close>): nothing is visible.\<close>

definition above_window :: "string \<Rightarrow> string \<Rightarrow> bool" where
  "above_window path vb =
     (case (parse_path path, parse_viewBox vb) of
        (Some pth, Some (x, y, w, h)) \<Rightarrow> list_all (\<lambda>pt. snd pt < y) (outline_points pth)
      | _ \<Rightarrow> False)"

section \<open>Example inputs\<close>

definition box10 :: DOMRect where
  "box10 = \<lparr>rect_top = Fin 0, rect_bottom = Fin 10, rect_left = Fin 0, rect_right = Fin 10\<rparr>"

definition pointer_at :: "jsnum \<Rightarrow> jsnum \<Rightarrow> MouseEvent" where
  "pointer_at x y = \<lparr>clientX = x, clientY = y, target = box10\<rparr>"

definition idle_state :: wrapper_state where
  "idle_state = mount default_props"

definition filled_state :: wrapper_state where
  "filled_state = idle_state\<lparr>isFilled := True\<rparr>"

definition idle_state_hook :: hook_state where
  "idle_state_hook = mount_hook (hook_props_of default_props)"

definition filled_state_hook :: hook_state where
  "filled_state_hook = idle_state_hook\<lparr>hovered := True\<rparr>"

definition pinned_props :: HoverFillProps where
  "pinned_props = default_props\<lparr>fillPin := True\<rparr>"

definition inverted_props :: HoverFillProps where
  "inverted_props = default_props\<lparr>fillInvert := True\<rparr>"

definition tab_props :: HoverFillProps where
  "tab_props = default_props\<lparr>fillOnTab := True\<rparr>"

definition pinned_tab_props :: HoverFillProps where
  "pinned_tab_props = tab_props\<lparr>fillPin := True\<rparr>"

text \<open>Pointers just inside each edge of the 10 by 10 box, and one without a position.\<close>

definition near_top :: MouseEvent where "near_top = pointer_at (Fin 5) (Fin 1)"
definition near_bottom :: MouseEvent where "near_bottom = pointer_at (Fin 5) (Fin 9)"
definition near_left :: MouseEvent where "near_left = pointer_at (Fin 1) (Fin 5)"
definition near_right :: MouseEvent where "near_right = pointer_at (Fin 9) (Fin 5)"
definition no_position :: MouseEvent where "no_position = pointer_at NaN (Fin 5)"

text \<open>
  Doubles that are not integers: the doubles nearest to 0.1, 0.6, 0.7 and 100.1, and a
  rectangle and a pointer made of them.
\<close>

definition dbl_0_1 :: real where "dbl_0_1 = 3602879701896397 / 2 ^ 55"
definition dbl_0_6 :: real where "dbl_0_6 = 5404319552844595 / 2 ^ 53"
definition dbl_0_7 :: real where "dbl_0_7 = 3152519739159347 / 2 ^ 52"
definition dbl_100_1 :: real where "dbl_100_1 = 3521955646092083 / 2 ^ 45"

definition shifted_box :: DOMRect where
  "shifted_box =
     \<lparr>rect_top = Fin 0, rect_bottom = Fin 100, rect_left = Fin dbl_0_1,
      rect_right = Fin dbl_100_1\<rparr>"

definition shifted_pointer :: MouseEvent where
  "shifted_pointer = \<lparr>clientX = Fin dbl_0_7, clientY = Fin dbl_0_6, target = shifted_box\<rparr>"

text \<open>A rectangle of size zero at the origin.\<close>

definition point_box :: DOMRect where
  "point_box = \<lparr>rect_top = Fin 0, rect_bottom = Fin 0, rect_left = Fin 0, rect_right = Fin 0\<rparr>"

text \<open>A rectangle at infinity and one with an edge that is not a number.\<close>

definition far_box :: DOMRect where
  "far_box =
     \<lparr>rect_top = PosInf, rect_bottom = PosInf, rect_left = Fin 0, rect_right = Fin 10\<rparr>"

definition far_pointer :: MouseEvent where
  "far_pointer = \<lparr>clientX = Fin 5, clientY = PosInf, target = far_box\<rparr>"

definition broken_box :: DOMRect where
  "broken_box =
     \<lparr>rect_top = Fin 0, rect_bottom = Fin 10, rect_left = NaN, rect_right = Fin 10\<rparr>"

definition inside_broken :: MouseEvent where
  "inside_broken = \<lparr>clientX = Fin 5, clientY = Fin 5, target = broken_box\<rparr>"


section \<open>Rounding\<close>

lemma binade_up_spec:
  "2 powi e \<le> a \<Longrightarrow> e \<le> 1023 \<Longrightarrow>
   e \<le> binade_up a e \<and> binade_up a e \<le> 1023 \<and> 2 powi (binade_up a e) \<le> a
   \<and> (binade_up a e < 1023 \<longrightarrow> a < 2 powi (binade_up a e + 1))"
proof (induction a e rule: binade_up.induct)
  case (1 a e)
  show ?case
  proof (cases "e < 1023 \<and> 2 powi (e + 1) \<le> a")
    case True
    then have eq: "binade_up a e = binade_up a (e + 1)" by (subst binade_up.simps) simp
    from "1.IH" [OF True] True
    show ?thesis unfolding eq by auto
  next
    case False
    have eq: "binade_up a e = e" using False by (subst binade_up.simps) auto
    from False "1.prems" show ?thesis unfolding eq by auto
  qed
qed

lemma round_half_even_int: "round_half_even (of_int j) = j"
  by (simp add: round_half_even_def Let_def)

text \<open>An integer below \<open>2^53\<close> in magnitude is a double: rounding leaves it as it is.\<close>

lemma round_double_int:
  assumes "\<bar>k\<bar> < 2 ^ 53"
  shows "round_double (of_int k) = Fin (of_int k)"
proof (cases "k = 0")
  case True
  then show ?thesis by (simp add: round_double_def)
next
  case False
  define a :: real where "a = of_int \<bar>k\<bar>"
  have ak: "\<bar>real_of_int k\<bar> = a" by (simp add: a_def)
  have "1 \<le> \<bar>k\<bar>" using False by linarith
  then have a1: "1 \<le> a" unfolding a_def by (simp only: of_int_1_le_iff)
  have alt: "a < 2 ^ 53" unfolding a_def using assms by (simp only: of_int_less_numeral_power_cancel_iff)
  define e where "e = binade a"
  have e: "e = binade_up a 0" using a1 by (simp add: e_def binade_def)
  from binade_up_spec [of 0 a] a1
  have spec: "0 \<le> e" "e \<le> 1023" "2 powi e \<le> a"
    unfolding e by auto
  have "2 powi e < (2::real) powi 53" using spec(3) alt by simp
  then have "e < 53" by (rule power_int_le_imp_less_exp [rotated]) simp_all
  then have e52: "e \<le> 52" by simp
  define n where "n = nat (52 - e)"
  have "e - 52 = - int n" using e52 by (simp add: n_def)
  then have u: "(2::real) powi (e - 52) = 1 / 2 ^ n"
    by (simp add: power_int_minus inverse_eq_divide)
  have q: "a / (1 / 2 ^ n) = of_int (\<bar>k\<bar> * 2 ^ n)" by (simp add: a_def)
  have rhe: "round_half_even (of_int (\<bar>k\<bar> * 2 ^ n)) = \<bar>k\<bar> * 2 ^ n"
    by (rule round_half_even_int)
  have m: "of_int (round_half_even (a / 2 powi (e - 52))) * 2 powi (e - 52) = a"
    unfolding u q rhe by (simp add: a_def)
  have "a < 2 powi 1024" using alt by (rule less_trans) simp
  then have big: "\<not> 2 powi 1024 \<le> a" by simp
  have pos: "0 < k \<Longrightarrow> a = of_int k" and neg: "\<not> 0 < k \<Longrightarrow> - a = of_int k"
    by (simp_all add: a_def)
  have "round_double (of_int k) = Fin (if 0 < real_of_int k then a else - a)"
    using False big by (simp add: round_double_def Let_def ak e_def [symmetric] m)
  also have "(if 0 < real_of_int k then a else - a) = of_int k"
    using pos neg by simp
  finally show ?thesis .
qed

lemma round_double_numeral [simp]:
  "(numeral n :: int) < 2 ^ 53 \<Longrightarrow> round_double (numeral n) = Fin (numeral n)"
  "(numeral n :: int) < 2 ^ 53 \<Longrightarrow> round_double (- numeral n) = Fin (- numeral n)"
  "round_double 1 = Fin 1" "round_double (- 1) = Fin (- 1)" "round_double 0 = Fin 0"
  using round_double_int [of "numeral n"] round_double_int [of "- numeral n"]
    round_double_int [of 1] round_double_int [of "- 1"] round_double_int [of 0]
  by simp_all

section \<open>The minimum and the first matching label\<close>

lemma min_loop_NaN: "NaN \<in> set xs \<Longrightarrow> min_loop l xs = NaN"
  by (induction xs arbitrary: l) auto

lemma js_lt_total: "x \<noteq> NaN \<Longrightarrow> l \<noteq> NaN \<Longrightarrow> \<not> js_lt x l \<Longrightarrow> js_le l x"
  by (cases x; cases l) (auto simp: js_le_def js_seq_def)

lemma js_le_refl: "x \<noteq> NaN \<Longrightarrow> js_le x x"
  by (simp add: js_le_def js_seq_def)

lemma js_le_trans: "js_le a b \<Longrightarrow> js_le b c \<Longrightarrow> js_le a c"
  by (cases a; cases b; cases c) (auto simp: js_le_def js_seq_def)

lemma js_lt_le: "js_lt a b \<Longrightarrow> js_le a b"
  by (simp add: js_le_def)

lemma min_loop_not_NaN: "NaN \<notin> set xs \<Longrightarrow> l \<noteq> NaN \<Longrightarrow> min_loop l xs \<noteq> NaN"
  by (induction xs arbitrary: l) auto

text \<open>The loop of \<^verbatim>\<open>Math.min\<close> returns a lower bound of its start value and of the list.\<close>

lemma min_loop_lower:
  "NaN \<notin> set xs \<Longrightarrow> l \<noteq> NaN \<Longrightarrow>
     js_le (min_loop l xs) l \<and> (\<forall>x \<in> set xs. js_le (min_loop l xs) x)"
proof (induction xs arbitrary: l)
  case Nil
  then show ?case by (simp add: js_le_refl)
next
  case (Cons x xs)
  then have x: "x \<noteq> NaN" and xs: "NaN \<notin> set xs" by auto
  show ?case
  proof (cases "js_lt x l")
    case True
    from Cons.IH [OF xs x]
    have "js_le (min_loop x xs) x" and "\<forall>y\<in>set xs. js_le (min_loop x xs) y" by auto
    with True x show ?thesis by (auto intro: js_le_trans js_lt_le)
  next
    case False
    from Cons.IH [OF xs Cons.prems(2)]
    have "js_le (min_loop l xs) l" and "\<forall>y\<in>set xs. js_le (min_loop l xs) y" by auto
    moreover have "js_le l x" using x Cons.prems(2) False by (rule js_lt_total)
    ultimately show ?thesis using False x by (auto intro: js_le_trans)
  qed
qed

lemma min_loop_mem: "NaN \<notin> set xs \<Longrightarrow> min_loop l xs \<in> insert l (set xs)"
  by (induction xs arbitrary: l) auto

lemma Math_min_mem:
  assumes n: "NaN \<notin> set xs" and ne: "xs \<noteq> []"
  shows "Math_min xs \<in> set xs"
proof (cases "min_loop PosInf xs = PosInf")
  case True
  from ne obtain y where y: "y \<in> set xs" by (cases xs) auto
  with n have yn: "y \<noteq> NaN" by auto
  from min_loop_lower [OF n, of PosInf] y True have "js_le PosInf y" by auto
  with yn have "y = PosInf" by (cases y) (auto simp: js_le_def js_seq_def)
  with y True show ?thesis by (simp add: Math_min_def)
next
  case False
  with min_loop_mem [OF n, of PosInf] show ?thesis by (simp add: Math_min_def)
qed

lemma Math_min_lower: "NaN \<notin> set xs \<Longrightarrow> x \<in> set xs \<Longrightarrow> js_le (Math_min xs) x"
  using min_loop_lower [of xs PosInf] by (simp add: Math_min_def)

lemma Math_min_NaN: "NaN \<in> set xs \<Longrightarrow> Math_min xs = NaN"
  by (simp add: Math_min_def min_loop_NaN)

lemma Math_min_not_NaN: "NaN \<notin> set xs \<Longrightarrow> Math_min xs \<noteq> NaN"
  by (simp add: Math_min_def min_loop_not_NaN)

lemma all_direction: "(\<forall>d. P d) = (P DirTop \<and> P DirBottom \<and> P DirLeft \<and> P DirRight)"
  by (metis direction.exhaust)

lemma edgeDistance_mem: "edgeDistance e rect d \<in> set (edgeDistances e rect)"
  by (cases d) (simp_all add: edgeDistances_def)

lemmas detector_defs = edgeDistances_def topEdgeDistance_def bottomEdgeDistance_def
  leftEdgeDistance_def rightEdgeDistance_def

text \<open>With no \<open>NaN\<close> among the distances, the \<^verbatim>\<open>switch\<close> stops at the first label that
  equals the minimum.\<close>

lemma detector_first_match:
  assumes "NaN \<notin> set (edgeDistances e rect)"
  shows "\<exists>d. getMouseEnterDirection e rect = Some d
           \<and> edgeDistance e rect d = Math_min (edgeDistances e rect)
           \<and> (\<forall>d'. edgeDistance e rect d' = Math_min (edgeDistances e rect)
                  \<longrightarrow> priority d \<le> priority d')"
proof -
  let ?m = "Math_min (edgeDistances e rect)"
  have mem: "?m \<in> set (edgeDistances e rect)"
    using assms by (rule Math_min_mem) (simp add: edgeDistances_def)
  have nn: "?m \<noteq> NaN" using assms by (rule Math_min_not_NaN)
  have seq: "\<And>x. js_seq ?m x = (x = ?m)" using nn by (auto simp: js_seq_def)
  from mem have "?m = topEdgeDistance e rect \<or> ?m = bottomEdgeDistance e rect
      \<or> ?m = leftEdgeDistance e rect \<or> ?m = rightEdgeDistance e rect"
    by (auto simp: edgeDistances_def)
  then show ?thesis
    unfolding getMouseEnterDirection_def Let_def seq
    by (auto simp: all_direction)
qed

lemma detector_NaN: "NaN \<in> set (edgeDistances e rect) \<Longrightarrow> getMouseEnterDirection e rect = None"
  by (simp add: getMouseEnterDirection_def Math_min_NaN js_seq_def)

lemma Math_min_Fin4:
  "Math_min [Fin a, Fin b, Fin c, Fin d] = Fin (min (min a b) (min c d))"
  by (simp add: Math_min_def min_def)

lemma js_seq_Fin [simp]: "js_seq (Fin a) (Fin b) = (a = b)"
  by (simp add: js_seq_def)

text \<open>The detector on finite coordinates, in terms of the four rounded differences.\<close>

lemma detector_finite:
  assumes "round_double (t - y) = Fin vt" and "round_double (b - y) = Fin vb"
    and "round_double (l - x) = Fin vl" and "round_double (r - x) = Fin vr"
  shows "getMouseEnterDirection \<lparr>clientX = Fin x, clientY = Fin y, target = tg\<rparr>
           \<lparr>rect_top = Fin t, rect_bottom = Fin b, rect_left = Fin l, rect_right = Fin r\<rparr>
         = Some (if \<bar>vt\<bar> = min (min \<bar>vt\<bar> \<bar>vb\<bar>) (min \<bar>vl\<bar> \<bar>vr\<bar>) then DirTop
                 else if \<bar>vb\<bar> = min (min \<bar>vt\<bar> \<bar>vb\<bar>) (min \<bar>vl\<bar> \<bar>vr\<bar>) then DirBottom
                 else if \<bar>vl\<bar> = min (min \<bar>vt\<bar> \<bar>vb\<bar>) (min \<bar>vl\<bar> \<bar>vr\<bar>) then DirLeft
                 else DirRight)"
proof -
  let ?e = "\<lparr>clientX = Fin x, clientY = Fin y, target = tg\<rparr>"
  let ?r = "\<lparr>rect_top = Fin t, rect_bottom = Fin b, rect_left = Fin l, rect_right = Fin r\<rparr>"
  define m where "m = min (min \<bar>vt\<bar> \<bar>vb\<bar>) (min \<bar>vl\<bar> \<bar>vr\<bar>)"
  have d: "topEdgeDistance ?e ?r = Fin \<bar>vt\<bar>" "bottomEdgeDistance ?e ?r = Fin \<bar>vb\<bar>"
    "leftEdgeDistance ?e ?r = Fin \<bar>vl\<bar>" "rightEdgeDistance ?e ?r = Fin \<bar>vr\<bar>"
    using assms
    by (simp_all add: topEdgeDistance_def bottomEdgeDistance_def leftEdgeDistance_def
        rightEdgeDistance_def)
  have mm: "Math_min (edgeDistances ?e ?r) = Fin m"
    unfolding edgeDistances_def d m_def by (rule Math_min_Fin4)
  have last: "m \<noteq> \<bar>vt\<bar> \<Longrightarrow> m \<noteq> \<bar>vb\<bar> \<Longrightarrow> m \<noteq> \<bar>vl\<bar> \<Longrightarrow> m = \<bar>vr\<bar>"
    unfolding m_def by (simp add: min_def split: if_splits)
  have "getMouseEnterDirection ?e ?r
      = Some (if \<bar>vt\<bar> = m then DirTop else if \<bar>vb\<bar> = m then DirBottom
              else if \<bar>vl\<bar> = m then DirLeft else DirRight)"
    unfolding getMouseEnterDirection_def mm d Let_def using last by auto
  then show ?thesis unfolding m_def .
qed

text \<open>
  On the box and the pointer of doubles that are not integers, the left difference
  \<open>0.1 - 0.7\<close> rounds to \<open>-0.6\<close>, so the top and left distances tie and the result is top,
  although the exact left difference is the smaller one.
\<close>

lemma round_double_eval:
  assumes "x \<noteq> 0" and "binade \<bar>x\<bar> = e"
    and "round_half_even (\<bar>x\<bar> / 2 powi (e - 52)) = n"
    and "of_int n * 2 powi (e - 52) < (2::real) powi 1024"
  shows "round_double x = Fin ((if 0 < x then 1 else - 1) * (of_int n * 2 powi (e - 52)))"
proof -
  define a where "a = \<bar>x\<bar>"
  have "round_double x =
      (let u = 2 powi (binade a - 52); m = of_int (round_half_even (a / u)) * u
       in if 2 powi 1024 \<le> m then (if 0 < x then PosInf else NegInf)
          else Fin (if 0 < x then m else - m))"
    using assms(1) unfolding round_double_def a_def Let_def by (simp only: if_False)
  then show ?thesis
    using assms(2-4) unfolding a_def [symmetric] Let_def by simp
qed

lemmas dbl_defs = dbl_0_1_def dbl_0_6_def dbl_0_7_def dbl_100_1_def

lemma rounding_examples:
  "round_double (0 - dbl_0_6) = Fin (- dbl_0_6)"
  "round_double (100 - dbl_0_6) = Fin (3497326585629901 / 2 ^ 45)"
  "round_double (dbl_0_1 - dbl_0_7) = Fin (- dbl_0_6)"
  "round_double (dbl_100_1 - dbl_0_7) = Fin (6994653171259801 / 2 ^ 46)"
  using round_double_eval [of "0 - dbl_0_6" "- 1" 5404319552844595]
    round_double_eval [of "100 - dbl_0_6" 6 6994653171259802]
    round_double_eval [of "dbl_0_1 - dbl_0_7" "- 1" 5404319552844595]
    round_double_eval [of "dbl_100_1 - dbl_0_7" 6 6994653171259801]
  by (simp_all add: dbl_defs binade_def binade_up.simps binade_down.simps
      round_half_even_def Let_def)

lemma shifted_pointer_is_top:
  "getMouseEnterDirection shifted_pointer (target shifted_pointer) = Some DirTop"
  "\<bar>dbl_0_1 - dbl_0_7\<bar> < \<bar>0 - dbl_0_6\<bar>"
proof -
  show "getMouseEnterDirection shifted_pointer (target shifted_pointer) = Some DirTop"
    unfolding shifted_pointer_def shifted_box_def
    by (simp add: detector_finite [OF rounding_examples]) (simp add: dbl_defs)
  show "\<bar>dbl_0_1 - dbl_0_7\<bar> < \<bar>0 - dbl_0_6\<bar>" by (simp add: dbl_defs)
qed


lemma zero_size_examples:
  "getMouseEnterDirection \<lparr>clientX = Fin 1, clientY = Fin 0, target = tg\<rparr>
     \<lparr>rect_top = Fin (10 ^ 16), rect_bottom = Fin (10 ^ 16), rect_left = Fin (10 ^ 16),
      rect_right = Fin (10 ^ 16)\<rparr> = Some DirTop"
  "getMouseEnterDirection \<lparr>clientX = Fin dbl_0_7, clientY = Fin (- (1 / 2)), target = tg\<rparr>
     \<lparr>rect_top = Fin dbl_0_1, rect_bottom = Fin dbl_0_1, rect_left = Fin dbl_0_1,
      rect_right = Fin dbl_0_1\<rparr> = Some DirTop"
proof -
  have r: "round_double (10 ^ 16 - 0) = Fin (10 ^ 16)"
    "round_double (10 ^ 16 - 1) = Fin (10 ^ 16)"
    "round_double (dbl_0_1 - (- (1 / 2))) = Fin dbl_0_6"
    using round_double_eval [of "10 ^ 16 - 0" 53 5000000000000000]
      round_double_eval [of "10 ^ 16 - 1" 53 5000000000000000]
      round_double_eval [of "dbl_0_1 - (- (1 / 2))" "- 1" 5404319552844595]
    by (simp_all add: dbl_defs binade_def binade_up.simps binade_down.simps
        round_half_even_def Let_def)
  show "getMouseEnterDirection \<lparr>clientX = Fin 1, clientY = Fin 0, target = tg\<rparr>
     \<lparr>rect_top = Fin (10 ^ 16), rect_bottom = Fin (10 ^ 16), rect_left = Fin (10 ^ 16),
      rect_right = Fin (10 ^ 16)\<rparr> = Some DirTop"
    using detector_finite [OF r(1) r(1) r(2) r(2), of tg] by simp
  show "getMouseEnterDirection \<lparr>clientX = Fin dbl_0_7, clientY = Fin (- (1 / 2)), target = tg\<rparr>
     \<lparr>rect_top = Fin dbl_0_1, rect_bottom = Fin dbl_0_1, rect_left = Fin dbl_0_1,
      rect_right = Fin dbl_0_1\<rparr> = Some DirTop"
    using detector_finite [OF r(3) r(3) rounding_examples(3) rounding_examples(3), of tg]
    by simp
qed

lemma near_each_edge:
  "getMouseEnterDirection near_top (target near_top) = Some DirTop"
  "getMouseEnterDirection near_bottom (target near_bottom) = Some DirBottom"
  "getMouseEnterDirection near_left (target near_left) = Some DirLeft"
  "getMouseEnterDirection near_right (target near_right) = Some DirRight"
  "getMouseEnterDirection no_position (target no_position) = None"
  by (simp_all add: near_top_def near_bottom_def near_left_def near_right_def no_position_def
      pointer_at_def box10_def detector_defs getMouseEnterDirection_def Math_min_def js_seq_def)

section \<open>The detector returns the nearest edge\<close>

text \<open>
  C1, as stated, fails: some positions and rectangles yield no direction at all. With
  the pointer and the rectangle's top and bottom at infinity, the vertical differences
  are \<open>Infinity - Infinity\<close>, which is \<open>NaN\<close>; with a left edge that is \<open>NaN\<close> the left
  distance is \<open>NaN\<close>. In both cases the minimum is \<open>NaN\<close> and the function returns
  \<^verbatim>\<open>undefined\<close>.
\<close>

theorem detector_no_direction_counterexample:
  "getMouseEnterDirection far_pointer far_box = None
   \<and> getMouseEnterDirection inside_broken broken_box = None"
  by (simp add: far_pointer_def far_box_def inside_broken_def broken_box_def detector_defs
      getMouseEnterDirection_def Math_min_def js_seq_def)

text \<open>
  C1, amended. The four distances are \<^verbatim>\<open>Math.abs\<close> of the double differences
  \<^verbatim>\<open>rect.top - clientY\<close>, \<^verbatim>\<open>rect.bottom - clientY\<close>, \<^verbatim>\<open>rect.left - clientX\<close> and
  \<^verbatim>\<open>rect.right - clientX\<close>. For every pointer position and bounding rectangle for which
  none of them is \<open>NaN\<close>, the detector returns a direction whose distance equals the
  minimum of the four (the value of \<^verbatim>\<open>Math.min\<close>, and no distance is smaller), the first
  such direction in the order top, bottom, left, right. In particular, for finite
  coordinates whose four differences round to the finite doubles \<open>vt\<close>, \<open>vb\<close>, \<open>vl\<close>,
  \<open>vr\<close>, the result is the first direction in that order whose \<open>\<bar>v\<bar>\<close> is the least of
  the four.
\<close>

theorem detector_nearest_edge:
  "edgeDistance e rect DirTop = Math_abs (js_sub (rect_top rect) (clientY e))
   \<and> edgeDistance e rect DirBottom = Math_abs (js_sub (rect_bottom rect) (clientY e))
   \<and> edgeDistance e rect DirLeft = Math_abs (js_sub (rect_left rect) (clientX e))
   \<and> edgeDistance e rect DirRight = Math_abs (js_sub (rect_right rect) (clientX e))
   \<and> ((\<forall>d. edgeDistance e rect d \<noteq> NaN) \<longrightarrow>
        (\<exists>d. getMouseEnterDirection e rect = Some d
           \<and> edgeDistance e rect d
                = Math_min [edgeDistance e rect DirTop, edgeDistance e rect DirBottom,
                            edgeDistance e rect DirLeft, edgeDistance e rect DirRight]
           \<and> (\<forall>d'. js_le (edgeDistance e rect d) (edgeDistance e rect d'))
           \<and> (\<forall>d'. edgeDistance e rect d' = edgeDistance e rect d
                  \<longrightarrow> priority d \<le> priority d')))
   \<and> (round_double (t - y) = Fin vt \<and> round_double (b - y) = Fin vb
        \<and> round_double (l - x) = Fin vl \<and> round_double (r - x) = Fin vr \<longrightarrow>
        getMouseEnterDirection \<lparr>clientX = Fin x, clientY = Fin y, target = tg\<rparr>
           \<lparr>rect_top = Fin t, rect_bottom = Fin b, rect_left = Fin l, rect_right = Fin r\<rparr>
         = Some (if \<bar>vt\<bar> = min (min \<bar>vt\<bar> \<bar>vb\<bar>) (min \<bar>vl\<bar> \<bar>vr\<bar>) then DirTop
                 else if \<bar>vb\<bar> = min (min \<bar>vt\<bar> \<bar>vb\<bar>) (min \<bar>vl\<bar> \<bar>vr\<bar>) then DirBottom
                 else if \<bar>vl\<bar> = min (min \<bar>vt\<bar> \<bar>vb\<bar>) (min \<bar>vl\<bar> \<bar>vr\<bar>) then DirLeft
                 else DirRight))"
proof (intro conjI impI)
  assume nn: "\<forall>d. edgeDistance e rect d \<noteq> NaN"
  then have n: "NaN \<notin> set (edgeDistances e rect)"
    by (auto simp: all_direction edgeDistances_def)
  from detector_first_match [OF n] obtain d where
    d: "getMouseEnterDirection e rect = Some d"
       "edgeDistance e rect d = Math_min (edgeDistances e rect)"
       "\<forall>d'. edgeDistance e rect d' = Math_min (edgeDistances e rect)
             \<longrightarrow> priority d \<le> priority d'"
    by blast
  have "js_le (edgeDistance e rect d) (edgeDistance e rect d')" for d'
    unfolding d(2) using n edgeDistance_mem by (rule Math_min_lower)
  with d show "\<exists>d. getMouseEnterDirection e rect = Some d
           \<and> edgeDistance e rect d
                = Math_min [edgeDistance e rect DirTop, edgeDistance e rect DirBottom,
                            edgeDistance e rect DirLeft, edgeDistance e rect DirRight]
           \<and> (\<forall>d'. js_le (edgeDistance e rect d) (edgeDistance e rect d'))
           \<and> (\<forall>d'. edgeDistance e rect d' = edgeDistance e rect d
                  \<longrightarrow> priority d \<le> priority d')"
    by (auto simp: edgeDistances_def)
next
  assume "round_double (t - y) = Fin vt \<and> round_double (b - y) = Fin vb
        \<and> round_double (l - x) = Fin vl \<and> round_double (r - x) = Fin vr"
  then show "getMouseEnterDirection \<lparr>clientX = Fin x, clientY = Fin y, target = tg\<rparr>
           \<lparr>rect_top = Fin t, rect_bottom = Fin b, rect_left = Fin l, rect_right = Fin r\<rparr>
         = Some (if \<bar>vt\<bar> = min (min \<bar>vt\<bar> \<bar>vb\<bar>) (min \<bar>vl\<bar> \<bar>vr\<bar>) then DirTop
                 else if \<bar>vb\<bar> = min (min \<bar>vt\<bar> \<bar>vb\<bar>) (min \<bar>vl\<bar> \<bar>vr\<bar>) then DirBottom
                 else if \<bar>vl\<bar> = min (min \<bar>vt\<bar> \<bar>vb\<bar>) (min \<bar>vl\<bar> \<bar>vr\<bar>) then DirLeft
                 else DirRight)"
    by (intro detector_finite) simp_all
qed (simp_all add: detector_defs)


theorem detector_nearest_edge_witness:
  "(\<forall>d. edgeDistance (pointer_at (Fin 0) (Fin 0)) box10 d \<noteq> NaN)
   \<and> (\<exists>d. getMouseEnterDirection (pointer_at (Fin 0) (Fin 0)) box10 = Some d
        \<and> (\<forall>d'. js_le (edgeDistance (pointer_at (Fin 0) (Fin 0)) box10 d)
                       (edgeDistance (pointer_at (Fin 0) (Fin 0)) box10 d'))
        \<and> (\<forall>d'. edgeDistance (pointer_at (Fin 0) (Fin 0)) box10 d'
                  = edgeDistance (pointer_at (Fin 0) (Fin 0)) box10 d
                  \<longrightarrow> priority d \<le> priority d'))
   \<and> round_double (0 - dbl_0_6) = Fin (- dbl_0_6)
   \<and> round_double (100 - dbl_0_6) = Fin (3497326585629901 / 2 ^ 45)
   \<and> round_double (dbl_0_1 - dbl_0_7) = Fin (- dbl_0_6)
   \<and> round_double (dbl_100_1 - dbl_0_7) = Fin (6994653171259801 / 2 ^ 46)
   \<and> getMouseEnterDirection shifted_pointer shifted_box = Some DirTop"
proof -
  have h: "\<forall>d. edgeDistance (pointer_at (Fin 0) (Fin 0)) box10 d \<noteq> NaN"
    by (simp add: all_direction pointer_at_def box10_def detector_defs)
  from h detector_nearest_edge [of "pointer_at (Fin 0) (Fin 0)" box10]
  have c1: "\<exists>d. getMouseEnterDirection (pointer_at (Fin 0) (Fin 0)) box10 = Some d
        \<and> (\<forall>d'. js_le (edgeDistance (pointer_at (Fin 0) (Fin 0)) box10 d)
                       (edgeDistance (pointer_at (Fin 0) (Fin 0)) box10 d'))
        \<and> (\<forall>d'. edgeDistance (pointer_at (Fin 0) (Fin 0)) box10 d'
                  = edgeDistance (pointer_at (Fin 0) (Fin 0)) box10 d
                  \<longrightarrow> priority d \<le> priority d')"
    by blast
  note r = rounding_examples
  from r detector_nearest_edge [where t = 0 and y = dbl_0_6 and b = 100 and l = dbl_0_1
      and x = dbl_0_7 and r = dbl_100_1 and vt = "- dbl_0_6"
      and vb = "3497326585629901 / 2 ^ 45" and vl = "- dbl_0_6"
      and vr = "6994653171259801 / 2 ^ 46" and tg = shifted_box]
  have "getMouseEnterDirection \<lparr>clientX = Fin dbl_0_7, clientY = Fin dbl_0_6, target = shifted_box\<rparr>
           \<lparr>rect_top = Fin 0, rect_bottom = Fin 100, rect_left = Fin dbl_0_1,
            rect_right = Fin dbl_100_1\<rparr>
         = Some (if \<bar>- dbl_0_6\<bar> = min (min \<bar>- dbl_0_6\<bar> \<bar>3497326585629901 / 2 ^ 45\<bar>)
                      (min \<bar>- dbl_0_6\<bar> \<bar>6994653171259801 / 2 ^ 46\<bar>) then DirTop
                 else if \<bar>3497326585629901 / 2 ^ 45\<bar> = min (min \<bar>- dbl_0_6\<bar> \<bar>3497326585629901 / 2 ^ 45\<bar>)
                      (min \<bar>- dbl_0_6\<bar> \<bar>6994653171259801 / 2 ^ 46\<bar>) then DirBottom
                 else if \<bar>- dbl_0_6\<bar> = min (min \<bar>- dbl_0_6\<bar> \<bar>3497326585629901 / 2 ^ 45\<bar>)
                      (min \<bar>- dbl_0_6\<bar> \<bar>6994653171259801 / 2 ^ 46\<bar>) then DirLeft
                 else DirRight)"
    by blast
  then have c2: "getMouseEnterDirection shifted_pointer shifted_box = Some DirTop"
    by (simp add: shifted_pointer_def shifted_box_def dbl_defs)
  from h c1 r c2 show ?thesis by blast
qed

section \<open>The detector on degenerate and non-numeric input\<close>

lemma js_sub_NaN [simp]: "js_sub x NaN = NaN"
  by (cases x) simp_all

lemma detector_NaN_input:
  assumes "clientX e = NaN \<or> clientY e = NaN \<or> rect_top rect = NaN \<or> rect_bottom rect = NaN
           \<or> rect_left rect = NaN \<or> rect_right rect = NaN"
  shows "getMouseEnterDirection e rect = None"
proof -
  from assms have "NaN \<in> set (edgeDistances e rect)"
    by (auto simp: detector_defs)
  then show ?thesis by (rule detector_NaN)
qed

text \<open>A rectangle of size zero never yields bottom or right: top and left come first.\<close>

lemma detector_zero_size:
  assumes "rect_top rect = rect_bottom rect" and "rect_left rect = rect_right rect"
  shows "getMouseEnterDirection e rect \<in> {None, Some DirTop, Some DirLeft}"
proof -
  have eq: "bottomEdgeDistance e rect = topEdgeDistance e rect"
    "rightEdgeDistance e rect = leftEdgeDistance e rect"
    using assms by (simp_all add: detector_defs)
  show ?thesis
    unfolding getMouseEnterDirection_def Let_def eq by simp
qed

text \<open>
  C8, as stated, fails: with a \<open>NaN\<close> coordinate the minimum is \<open>NaN\<close>, no \<^verbatim>\<open>case\<close> label
  is strictly equal to it, and the function returns \<^verbatim>\<open>undefined\<close> instead of a direction.
\<close>

theorem detector_NaN_counterexample:
  "getMouseEnterDirection (pointer_at NaN (Fin 5)) box10 = None"
  by (simp add: pointer_at_def box10_def detector_defs getMouseEnterDirection_def
      Math_min_def js_seq_def)

text \<open>
  C8, amended. For every event and every element the detector is called with, the call
  raises no exception and computes the minimum of the four distances
  \<^verbatim>\<open>Math.abs(edge - coordinate)\<close>. When one of the distances is \<open>NaN\<close>, as it is whenever a
  coordinate of the pointer or an edge of the rectangle is \<open>NaN\<close> or \<^verbatim>\<open>undefined\<close>, the
  minimum is \<open>NaN\<close> and the result is \<^verbatim>\<open>undefined\<close>; otherwise the result is a direction
  whose distance is the minimum, the first in the order top, bottom, left, right. A
  rectangle of size zero yields top or left whenever it yields a direction: for finite
  coordinates, top when the rounded vertical difference is not larger in magnitude than
  the rounded horizontal one, and left otherwise.
\<close>

theorem detector_total:
  "getMouseEnterDirection_call e (Element rect) = Inr (getMouseEnterDirection e rect)
   \<and> edgeDistances e rect =
        [Math_abs (js_sub (rect_top rect) (clientY e)),
         Math_abs (js_sub (rect_bottom rect) (clientY e)),
         Math_abs (js_sub (rect_left rect) (clientX e)),
         Math_abs (js_sub (rect_right rect) (clientX e))]
   \<and> (NaN \<in> set (edgeDistances e rect) \<longrightarrow>
        Math_min (edgeDistances e rect) = NaN \<and> getMouseEnterDirection e rect = None)
   \<and> (clientX e = NaN \<or> clientY e = NaN \<or> rect_top rect = NaN \<or> rect_bottom rect = NaN
        \<or> rect_left rect = NaN \<or> rect_right rect = NaN \<longrightarrow>
        getMouseEnterDirection e rect = None)
   \<and> (NaN \<notin> set (edgeDistances e rect) \<longrightarrow>
        (\<exists>d. getMouseEnterDirection e rect = Some d
           \<and> edgeDistance e rect d = Math_min (edgeDistances e rect)
           \<and> (\<forall>d'. edgeDistance e rect d' = Math_min (edgeDistances e rect)
                  \<longrightarrow> priority d \<le> priority d')))
   \<and> (rect_top rect = rect_bottom rect \<and> rect_left rect = rect_right rect \<longrightarrow>
        getMouseEnterDirection e rect \<in> {None, Some DirTop, Some DirLeft})
   \<and> (round_double (a - y) = Fin v \<and> round_double (b - x) = Fin w \<longrightarrow>
        getMouseEnterDirection \<lparr>clientX = Fin x, clientY = Fin y, target = tg\<rparr>
          \<lparr>rect_top = Fin a, rect_bottom = Fin a, rect_left = Fin b, rect_right = Fin b\<rparr>
        = Some (if \<bar>v\<bar> \<le> \<bar>w\<bar> then DirTop else DirLeft))"
proof (intro conjI impI)
  show "getMouseEnterDirection_call e (Element rect) = Inr (getMouseEnterDirection e rect)"
    by (simp add: getMouseEnterDirection_call_def)
next
  show "edgeDistances e rect =
        [Math_abs (js_sub (rect_top rect) (clientY e)),
         Math_abs (js_sub (rect_bottom rect) (clientY e)),
         Math_abs (js_sub (rect_left rect) (clientX e)),
         Math_abs (js_sub (rect_right rect) (clientX e))]"
    by (simp add: detector_defs)
next
  assume "NaN \<in> set (edgeDistances e rect)"
  then show "Math_min (edgeDistances e rect) = NaN" by (rule Math_min_NaN)
next
  assume "NaN \<in> set (edgeDistances e rect)"
  then show "getMouseEnterDirection e rect = None" by (rule detector_NaN)
next
  assume "clientX e = NaN \<or> clientY e = NaN \<or> rect_top rect = NaN \<or> rect_bottom rect = NaN
        \<or> rect_left rect = NaN \<or> rect_right rect = NaN"
  then show "getMouseEnterDirection e rect = None" by (rule detector_NaN_input)
next
  assume "NaN \<notin> set (edgeDistances e rect)"
  then show "\<exists>d. getMouseEnterDirection e rect = Some d
          \<and> edgeDistance e rect d = Math_min (edgeDistances e rect)
          \<and> (\<forall>d'. edgeDistance e rect d' = Math_min (edgeDistances e rect)
                 \<longrightarrow> priority d \<le> priority d')"
    by (rule detector_first_match)
next
  assume "rect_top rect = rect_bottom rect \<and> rect_left rect = rect_right rect"
  then show "getMouseEnterDirection e rect \<in> {None, Some DirTop, Some DirLeft}"
    by (intro detector_zero_size) simp_all
next
  assume r: "round_double (a - y) = Fin v \<and> round_double (b - x) = Fin w"
  then have "getMouseEnterDirection \<lparr>clientX = Fin x, clientY = Fin y, target = tg\<rparr>
          \<lparr>rect_top = Fin a, rect_bottom = Fin a, rect_left = Fin b, rect_right = Fin b\<rparr>
        = Some (if \<bar>v\<bar> = min (min \<bar>v\<bar> \<bar>v\<bar>) (min \<bar>w\<bar> \<bar>w\<bar>) then DirTop
                else if \<bar>v\<bar> = min (min \<bar>v\<bar> \<bar>v\<bar>) (min \<bar>w\<bar> \<bar>w\<bar>) then DirBottom
                else if \<bar>w\<bar> = min (min \<bar>v\<bar> \<bar>v\<bar>) (min \<bar>w\<bar> \<bar>w\<bar>) then DirLeft
                else DirRight)"
    by (intro detector_finite) simp_all
  then show "getMouseEnterDirection \<lparr>clientX = Fin x, clientY = Fin y, target = tg\<rparr>
          \<lparr>rect_top = Fin a, rect_bottom = Fin a, rect_left = Fin b, rect_right = Fin b\<rparr>
        = Some (if \<bar>v\<bar> \<le> \<bar>w\<bar> then DirTop else DirLeft)"
    by (simp add: min_def)
qed




theorem detector_total_witness:
  "NaN \<in> set (edgeDistances (pointer_at NaN (Fin 5)) box10)
   \<and> clientX (pointer_at NaN (Fin 5)) = NaN
   \<and> Math_min (edgeDistances (pointer_at NaN (Fin 5)) box10) = NaN
   \<and> getMouseEnterDirection (pointer_at NaN (Fin 5)) box10 = None
   \<and> NaN \<notin> set (edgeDistances (pointer_at (Fin 9) (Fin 5)) box10)
   \<and> (\<exists>d. getMouseEnterDirection (pointer_at (Fin 9) (Fin 5)) box10 = Some d
        \<and> edgeDistance (pointer_at (Fin 9) (Fin 5)) box10 d
            = Math_min (edgeDistances (pointer_at (Fin 9) (Fin 5)) box10)
        \<and> (\<forall>d'. edgeDistance (pointer_at (Fin 9) (Fin 5)) box10 d'
                   = Math_min (edgeDistances (pointer_at (Fin 9) (Fin 5)) box10)
                 \<longrightarrow> priority d \<le> priority d'))
   \<and> rect_top point_box = rect_bottom point_box \<and> rect_left point_box = rect_right point_box
   \<and> getMouseEnterDirection (pointer_at (Fin 3) (Fin 4)) point_box
        \<in> {None, Some DirTop, Some DirLeft}
   \<and> round_double (0 - 4) = Fin (- 4) \<and> round_double (0 - 3) = Fin (- 3)
   \<and> getMouseEnterDirection \<lparr>clientX = Fin 3, clientY = Fin 4, target = box10\<rparr>
        \<lparr>rect_top = Fin 0, rect_bottom = Fin 0, rect_left = Fin 0, rect_right = Fin 0\<rparr>
      = Some DirLeft"
proof -
  have h1: "NaN \<in> set (edgeDistances (pointer_at NaN (Fin 5)) box10)"
    by (simp add: pointer_at_def box10_def detector_defs)
  have h1': "clientX (pointer_at NaN (Fin 5)) = NaN" by (simp add: pointer_at_def)
  have h2: "NaN \<notin> set (edgeDistances (pointer_at (Fin 9) (Fin 5)) box10)"
    by (simp add: pointer_at_def box10_def detector_defs)
  have h3: "rect_top point_box = rect_bottom point_box \<and> rect_left point_box = rect_right point_box"
    by (simp add: point_box_def)
  have h4: "round_double (0 - 4) = Fin (- 4) \<and> round_double (0 - 3) = Fin (- 3)" by simp
  from h1 detector_total [of "pointer_at NaN (Fin 5)" box10]
  have c1: "Math_min (edgeDistances (pointer_at NaN (Fin 5)) box10) = NaN
      \<and> getMouseEnterDirection (pointer_at NaN (Fin 5)) box10 = None"
    by blast
  from h2 detector_total [of "pointer_at (Fin 9) (Fin 5)" box10]
  have c2: "\<exists>d. getMouseEnterDirection (pointer_at (Fin 9) (Fin 5)) box10 = Some d
        \<and> edgeDistance (pointer_at (Fin 9) (Fin 5)) box10 d
            = Math_min (edgeDistances (pointer_at (Fin 9) (Fin 5)) box10)
        \<and> (\<forall>d'. edgeDistance (pointer_at (Fin 9) (Fin 5)) box10 d'
                   = Math_min (edgeDistances (pointer_at (Fin 9) (Fin 5)) box10)
                 \<longrightarrow> priority d \<le> priority d')"
    by blast
  from h3 detector_total [of "pointer_at (Fin 3) (Fin 4)" point_box]
  have c3: "getMouseEnterDirection (pointer_at (Fin 3) (Fin 4)) point_box
        \<in> {None, Some DirTop, Some DirLeft}"
    by blast
  from h4 detector_total [where a = 0 and y = 4 and b = 0 and x = 3 and v = "- 4"
      and w = "- 3" and tg = box10]
  have "getMouseEnterDirection \<lparr>clientX = Fin 3, clientY = Fin 4, target = box10\<rparr>
        \<lparr>rect_top = Fin 0, rect_bottom = Fin 0, rect_left = Fin 0, rect_right = Fin 0\<rparr>
      = Some (if \<bar>- 4 :: real\<bar> \<le> \<bar>- 3\<bar> then DirTop else DirLeft)"
    by blast
  then have c4: "getMouseEnterDirection \<lparr>clientX = Fin 3, clientY = Fin 4, target = box10\<rparr>
        \<lparr>rect_top = Fin 0, rect_bottom = Fin 0, rect_left = Fin 0, rect_right = Fin 0\<rparr>
      = Some DirLeft"
    by simp
  from h1 h1' c1 h2 c2 h3 c3 h4 c4 show ?thesis by blast
qed

section \<open>The eight transitions\<close>

lemma driver_calls_animation:
  "driver_calls (animation p a b c s) = driver_calls s @ [(a, b, c)]"
  by (simp add: animation_def driver_calls_def Let_def)

lemma driver_calls_animation_hook:
  "driver_calls (animation_hook p a b c s) = driver_calls s @ [(a, b, c)]"
  by (simp add: animation_hook_def driver_calls_def Let_def)

lemmas slide_defs = slideDownOut_def slideUpIn_def slideUpOut_def slideDownIn_def
  slideLeftIn_def slideRightIn_def slideLeftOut_def slideRightOut_def

lemmas slide_hook_defs = slideDownOut_hook_def slideUpIn_hook_def slideUpOut_hook_def
  slideDownIn_hook_def slideLeftIn_hook_def slideRightIn_hook_def slideLeftOut_hook_def
  slideRightOut_hook_def

lemma parse_viewBox_constants:
  "parse_viewBox vbCenter = Some (0, 0, 100, 100)"
  "parse_viewBox vbTop = Some (0, 101, 100, 100)"
  "parse_viewBox vbBottom = Some (0, - 101, 100, 100)"
  "parse_viewBox vbLeft = Some (101, 0, 100, 100)"
  "parse_viewBox vbRight = Some (- 101, 0, 100, 100)"
  by (simp_all add: parse_viewBox_def vbCenter_def vbTop_def vbBottom_def vbLeft_def
      vbRight_def digit_of_def)

text \<open>
  C2. Each of the eight named transitions makes exactly one call of the animation driver,
  with the triple of the table: start viewBox, end viewBox, directional path. The centre
  viewBox reads \<open>(0, 0, 100, 100)\<close>, and each offset viewBox differs from it by 101 or -101
  in one coordinate: top and bottom in \<open>y\<close>, left and right in \<open>x\<close>. The hook component
  declares the same table.
\<close>

theorem transition_table:
  "driver_calls (slideDownOut p s) = driver_calls s @ [(vbCenter, vbBottom, concaveTopPath)]
   \<and> driver_calls (slideUpIn p s) = driver_calls s @ [(vbBottom, vbCenter, convexTopPath)]
   \<and> driver_calls (slideUpOut p s) = driver_calls s @ [(vbCenter, vbTop, concaveBottomPath)]
   \<and> driver_calls (slideDownIn p s) = driver_calls s @ [(vbTop, vbCenter, convexBottomPath)]
   \<and> driver_calls (slideLeftIn p s) = driver_calls s @ [(vbLeft, vbCenter, convexRightPath)]
   \<and> driver_calls (slideRightIn p s) = driver_calls s @ [(vbRight, vbCenter, convexLeftPath)]
   \<and> driver_calls (slideLeftOut p s) = driver_calls s @ [(vbCenter, vbLeft, concaveRightPath)]
   \<and> driver_calls (slideRightOut p s) = driver_calls s @ [(vbCenter, vbRight, concaveLeftPath)]
   \<and> driver_calls (slideDownOut_hook hp s) = driver_calls s @ [(vbCenter, vbBottom, concaveTopPath)]
   \<and> driver_calls (slideUpIn_hook hp s) = driver_calls s @ [(vbBottom, vbCenter, convexTopPath)]
   \<and> driver_calls (slideUpOut_hook hp s) = driver_calls s @ [(vbCenter, vbTop, concaveBottomPath)]
   \<and> driver_calls (slideDownIn_hook hp s) = driver_calls s @ [(vbTop, vbCenter, convexBottomPath)]
   \<and> driver_calls (slideLeftIn_hook hp s) = driver_calls s @ [(vbLeft, vbCenter, convexRightPath)]
   \<and> driver_calls (slideRightIn_hook hp s) = driver_calls s @ [(vbRight, vbCenter, convexLeftPath)]
   \<and> driver_calls (slideLeftOut_hook hp s) = driver_calls s @ [(vbCenter, vbLeft, concaveRightPath)]
   \<and> driver_calls (slideRightOut_hook hp s) = driver_calls s @ [(vbCenter, vbRight, concaveLeftPath)]
   \<and> parse_viewBox vbCenter = Some (0, 0, 100, 100)
   \<and> parse_viewBox vbTop = Some (0, 101, 100, 100)
   \<and> parse_viewBox vbBottom = Some (0, - 101, 100, 100)
   \<and> parse_viewBox vbLeft = Some (101, 0, 100, 100)
   \<and> parse_viewBox vbRight = Some (- 101, 0, 100, 100)"
  by (simp add: slide_defs slide_hook_defs driver_calls_animation driver_calls_animation_hook
      parse_viewBox_constants)

section \<open>The schedule of one driver call\<close>

lemma timeline_of_animation:
  assumes "0 \<le> fillDuration p"
  shows "run_timeline (last (runs (animation p vf vt dp s))) =
     \<lparr>default_duration = fillDuration p, default_ease = ''power2.out'',
      children =
       [\<lparr>tw_target = SvgNode, tw_attr = ''viewBox'', tw_value = vf, tw_start = 0,
          tw_duration = 0, tw_ease = ''power2.out''\<rparr>,
        \<lparr>tw_target = SvgNode, tw_attr = ''viewBox'', tw_value = vt, tw_start = 0,
          tw_duration = fillDuration p, tw_ease = ''power2.out''\<rparr>,
        \<lparr>tw_target = PathNode, tw_attr = ''d'', tw_value = dp, tw_start = 0,
          tw_duration = fillDuration p, tw_ease = ''power2.out''\<rparr>,
        \<lparr>tw_target = PathNode, tw_attr = ''d'', tw_value = squarePath,
          tw_start = 0.3 * fillDuration p,
          tw_duration = fillDuration p, tw_ease = ''power2.out''\<rparr>]\<rparr>"
  using assms
  by (simp add: animation_def Let_def gsap_timeline_def tl_set_def tl_to_def timeline_end_def)

lemma timeline_of_animation_hook:
  assumes "0 \<le> duration hp"
  shows "run_timeline (last (runs (animation_hook hp vf vt dp s))) =
     \<lparr>default_duration = duration hp, default_ease = ''power2.out'',
      children =
       [\<lparr>tw_target = SvgNode, tw_attr = ''viewBox'', tw_value = vf, tw_start = 0,
          tw_duration = 0, tw_ease = ''power2.out''\<rparr>,
        \<lparr>tw_target = PathNode, tw_attr = ''d'', tw_value = squarePath, tw_start = 0,
          tw_duration = 0, tw_ease = ''power2.out''\<rparr>,
        \<lparr>tw_target = SvgNode, tw_attr = ''viewBox'', tw_value = vt, tw_start = 0,
          tw_duration = duration hp, tw_ease = ''power2.out''\<rparr>,
        \<lparr>tw_target = PathNode, tw_attr = ''d'', tw_value = dp, tw_start = 0,
          tw_duration = duration hp, tw_ease = ''power2.out''\<rparr>,
        \<lparr>tw_target = PathNode, tw_attr = ''d'', tw_value = squarePath,
          tw_start = 0.3 * duration hp,
          tw_duration = duration hp, tw_ease = ''power2.out''\<rparr>]\<rparr>"
  using assms
  by (simp add: animation_hook_def Let_def gsap_timeline_def tl_set_def tl_to_def
      timeline_end_def)

text \<open>
  C4, as stated, fails in its last part. In the spec's own scenario (duration 0.5, no
  inversion, pointer entering at the top edge) the tween that resolves the path to the
  square starts at 0.15 seconds, not at 0.35: \<^verbatim>\<open>'-=70%'\<close> places it 70% of the duration
  before the end of the timeline, which is 30% of the duration after its start.
\<close>

theorem square_resolve_start_counterexample:
  "tw_start (last (children (run_timeline (last (runs
      (handleMouseEnter default_props near_top idle_state)))))) = 0.15
   \<and> tw_start (last (children (run_timeline (last (runs
      (handleMouseEnter default_props near_top idle_state)))))) \<noteq> 0.35"
proof -
  have "handleMouseEnter default_props near_top idle_state
      = animation default_props vbTop vbCenter convexBottomPath (idle_state\<lparr>isFilled := True\<rparr>)"
    by (simp add: handleMouseEnter_def idle_state_def mount_def useGSAP_setup_def
        initial_render_def default_props_def near_each_edge Let_def slide_defs)
  moreover have "0 \<le> fillDuration default_props" by (simp add: default_props_def)
  ultimately show ?thesis
    by (simp add: timeline_of_animation) (simp add: default_props_def)
qed

text \<open>
  C4, amended. Every call of the animation driver, with a duration that is not negative,
  builds this timeline: (a) the viewBox is set to the start window without tweening, at
  time 0; (b) at time 0 start both the viewBox tween to the end window and the path tween
  to the directional shape, each over the duration with the easing \<^verbatim>\<open>power2.out\<close>; (c) a
  second path tween to the neutral square starts 70% of the duration before the end of
  the timeline, that is when 30% of the duration has elapsed (0.15 seconds for a
  duration of 0.5), and also lasts the duration. The hook component first sets the path
  to the square as well.
\<close>

theorem animation_schedule:
  "(0 \<le> fillDuration p \<longrightarrow>
      children (run_timeline (last (runs (animation p vf vt dp s)))) =
       [\<lparr>tw_target = SvgNode, tw_attr = ''viewBox'', tw_value = vf, tw_start = 0,
          tw_duration = 0, tw_ease = ''power2.out''\<rparr>,
        \<lparr>tw_target = SvgNode, tw_attr = ''viewBox'', tw_value = vt, tw_start = 0,
          tw_duration = fillDuration p, tw_ease = ''power2.out''\<rparr>,
        \<lparr>tw_target = PathNode, tw_attr = ''d'', tw_value = dp, tw_start = 0,
          tw_duration = fillDuration p, tw_ease = ''power2.out''\<rparr>,
        \<lparr>tw_target = PathNode, tw_attr = ''d'', tw_value = squarePath,
          tw_start = 0.3 * fillDuration p,
          tw_duration = fillDuration p, tw_ease = ''power2.out''\<rparr>])
   \<and> (0 \<le> duration hp \<longrightarrow>
      children (run_timeline (last (runs (animation_hook hp vf vt dp hs)))) =
       [\<lparr>tw_target = SvgNode, tw_attr = ''viewBox'', tw_value = vf, tw_start = 0,
          tw_duration = 0, tw_ease = ''power2.out''\<rparr>,
        \<lparr>tw_target = PathNode, tw_attr = ''d'', tw_value = squarePath, tw_start = 0,
          tw_duration = 0, tw_ease = ''power2.out''\<rparr>,
        \<lparr>tw_target = SvgNode, tw_attr = ''viewBox'', tw_value = vt, tw_start = 0,
          tw_duration = duration hp, tw_ease = ''power2.out''\<rparr>,
        \<lparr>tw_target = PathNode, tw_attr = ''d'', tw_value = dp, tw_start = 0,
          tw_duration = duration hp, tw_ease = ''power2.out''\<rparr>,
        \<lparr>tw_target = PathNode, tw_attr = ''d'', tw_value = squarePath,
          tw_start = 0.3 * duration hp,
          tw_duration = duration hp, tw_ease = ''power2.out''\<rparr>])"
  by (simp add: timeline_of_animation timeline_of_animation_hook)

theorem animation_schedule_witness:
  "0 \<le> fillDuration default_props
   \<and> map tw_start (children (run_timeline (last (runs
        (animation default_props vbTop vbCenter convexBottomPath idle_state)))))
      = [0, 0, 0, 0.3 * fillDuration default_props]
   \<and> 0 \<le> duration (hook_props_of default_props)
   \<and> map tw_start (children (run_timeline (last (runs
        (animation_hook (hook_props_of default_props) vbTop vbCenter convexBottomPath
           idle_state_hook)))))
      = [0, 0, 0, 0, 0.3 * duration (hook_props_of default_props)]"
proof -
  have h1: "0 \<le> fillDuration default_props" by (simp add: default_props_def)
  have h2: "0 \<le> duration (hook_props_of default_props)"
    by (simp add: default_props_def hook_props_of_def)
  note sched = animation_schedule [of default_props vbTop vbCenter convexBottomPath idle_state
      "hook_props_of default_props" idle_state_hook]
  from sched h1 have c1: "map tw_start (children (run_timeline (last (runs
        (animation default_props vbTop vbCenter convexBottomPath idle_state)))))
      = [0, 0, 0, 0.3 * fillDuration default_props]"
    by simp
  from sched h2 have c2: "map tw_start (children (run_timeline (last (runs
        (animation_hook (hook_props_of default_props) vbTop vbCenter convexBottomPath
           idle_state_hook)))))
      = [0, 0, 0, 0, 0.3 * duration (hook_props_of default_props)]"
    by simp
  from h1 c1 h2 c2 show ?thesis by blast
qed


section \<open>Direction inversion in the wrapper\<close>

lemma animation_props_irrelevant [simp]:
  "animation (p\<lparr>fillInvert := b\<rparr>) = animation p"
  "animation (p\<lparr>fillTabEnter := te, fillTabLeave := tlv\<rparr>) = animation p"
  by (simp_all add: animation_def fun_eq_iff)

text \<open>Two driver calls with different arguments leave different states.\<close>

lemma animation_neq:
  "driver_calls s = driver_calls s' \<Longrightarrow> (a, b, c) \<noteq> (a', b', c') \<Longrightarrow>
     animation p a b c s \<noteq> animation p' a' b' c' s'"
  by (metis driver_calls_animation append1_eq_conv)

lemma vb_distinct:
  "vbTop \<noteq> vbBottom" "vbBottom \<noteq> vbTop" "vbLeft \<noteq> vbRight" "vbRight \<noteq> vbLeft"
  by (simp_all add: vbTop_def vbBottom_def vbLeft_def vbRight_def)

lemma handleMouseEnter_idle:
  "\<not> isFilled s \<Longrightarrow> \<not> fillPin p \<Longrightarrow> getMouseEnterDirection e (target e) = Some d \<Longrightarrow>
   handleMouseEnter p e s =
     (case d of
        DirBottom \<Rightarrow> if fillInvert p then slideDownIn p (s\<lparr>isFilled := True\<rparr>)
                     else slideUpIn p (s\<lparr>isFilled := True\<rparr>)
      | DirTop \<Rightarrow> if fillInvert p then slideUpIn p (s\<lparr>isFilled := True\<rparr>)
                  else slideDownIn p (s\<lparr>isFilled := True\<rparr>)
      | DirLeft \<Rightarrow> if fillInvert p then slideRightIn p (s\<lparr>isFilled := True\<rparr>)
                   else slideLeftIn p (s\<lparr>isFilled := True\<rparr>)
      | DirRight \<Rightarrow> if fillInvert p then slideLeftIn p (s\<lparr>isFilled := True\<rparr>)
                    else slideRightIn p (s\<lparr>isFilled := True\<rparr>))"
  by (cases d) (simp_all add: handleMouseEnter_def Let_def)

lemma handleMouseLeave_filled:
  "isFilled s \<Longrightarrow> \<not> fillPin p \<Longrightarrow> getMouseEnterDirection e (target e) = Some d \<Longrightarrow>
   handleMouseLeave p e s =
     (case d of
        DirBottom \<Rightarrow> if fillInvert p then slideUpOut p (s\<lparr>isFilled := False\<rparr>)
                     else slideDownOut p (s\<lparr>isFilled := False\<rparr>)
      | DirTop \<Rightarrow> if fillInvert p then slideDownOut p (s\<lparr>isFilled := False\<rparr>)
                  else slideUpOut p (s\<lparr>isFilled := False\<rparr>)
      | DirLeft \<Rightarrow> slideLeftOut p (s\<lparr>isFilled := False\<rparr>)
      | DirRight \<Rightarrow> if fillInvert p then slideLeftOut p (s\<lparr>isFilled := False\<rparr>)
                    else slideRightOut p (s\<lparr>isFilled := False\<rparr>))"
  by (cases d) (simp_all add: handleMouseLeave_def Let_def)

text \<open>
  C3. In the wrapper component, without pinning, let an event arrive from direction \<open>d\<close>
  and another from the opposite direction. With the invert flag set, entering from \<open>d\<close>
  plays the transition that entering from the opposite direction plays without the
  flag, and this differs from what \<open>d\<close> itself plays without the flag. The same holds for
  leaving, for every direction but left. Leaving from the left plays \<^verbatim>\<open>slideLeftOut\<close>
  whatever the flag is, which is not what leaving from the right plays without it.
\<close>

theorem invert_swaps_directions:
  assumes "\<not> fillPin p"
    and "getMouseEnterDirection e (target e) = Some d"
    and "getMouseEnterDirection e' (target e') = Some (opposite d)"
  shows "(\<not> isFilled s \<longrightarrow>
            handleMouseEnter (p\<lparr>fillInvert := True\<rparr>) e s
              = handleMouseEnter (p\<lparr>fillInvert := False\<rparr>) e' s
          \<and> handleMouseEnter (p\<lparr>fillInvert := True\<rparr>) e s
              \<noteq> handleMouseEnter (p\<lparr>fillInvert := False\<rparr>) e s)
       \<and> (isFilled s \<and> d \<noteq> DirLeft \<longrightarrow>
            handleMouseLeave (p\<lparr>fillInvert := True\<rparr>) e s
              = handleMouseLeave (p\<lparr>fillInvert := False\<rparr>) e' s
          \<and> handleMouseLeave (p\<lparr>fillInvert := True\<rparr>) e s
              \<noteq> handleMouseLeave (p\<lparr>fillInvert := False\<rparr>) e s)
       \<and> (isFilled s \<and> d = DirLeft \<longrightarrow>
            handleMouseLeave (p\<lparr>fillInvert := True\<rparr>) e s
              = slideLeftOut p (s\<lparr>isFilled := False\<rparr>)
          \<and> handleMouseLeave (p\<lparr>fillInvert := False\<rparr>) e s
              = slideLeftOut p (s\<lparr>isFilled := False\<rparr>)
          \<and> handleMouseLeave (p\<lparr>fillInvert := True\<rparr>) e s
              \<noteq> handleMouseLeave (p\<lparr>fillInvert := False\<rparr>) e' s)"
proof (intro conjI impI)
  assume idle: "\<not> isFilled s"
  show "handleMouseEnter (p\<lparr>fillInvert := True\<rparr>) e s
      = handleMouseEnter (p\<lparr>fillInvert := False\<rparr>) e' s"
    using assms idle by (cases d) (simp_all add: handleMouseEnter_idle slide_defs)
  show "handleMouseEnter (p\<lparr>fillInvert := True\<rparr>) e s
      \<noteq> handleMouseEnter (p\<lparr>fillInvert := False\<rparr>) e s"
    using assms idle
    by (cases d) (simp_all add: handleMouseEnter_idle slide_defs animation_neq vb_distinct)
next
  assume f: "isFilled s \<and> d \<noteq> DirLeft"
  show "handleMouseLeave (p\<lparr>fillInvert := True\<rparr>) e s
      = handleMouseLeave (p\<lparr>fillInvert := False\<rparr>) e' s"
    using assms f by (cases d) (simp_all add: handleMouseLeave_filled slide_defs)
  show "handleMouseLeave (p\<lparr>fillInvert := True\<rparr>) e s
      \<noteq> handleMouseLeave (p\<lparr>fillInvert := False\<rparr>) e s"
    using assms f
    by (cases d) (simp_all add: handleMouseLeave_filled slide_defs animation_neq vb_distinct)
next
  assume f: "isFilled s \<and> d = DirLeft"
  show "handleMouseLeave (p\<lparr>fillInvert := True\<rparr>) e s = slideLeftOut p (s\<lparr>isFilled := False\<rparr>)"
    using assms f by (simp add: handleMouseLeave_filled slide_defs)
  show "handleMouseLeave (p\<lparr>fillInvert := False\<rparr>) e s = slideLeftOut p (s\<lparr>isFilled := False\<rparr>)"
    using assms f by (simp add: handleMouseLeave_filled slide_defs)
  show "handleMouseLeave (p\<lparr>fillInvert := True\<rparr>) e s
      \<noteq> handleMouseLeave (p\<lparr>fillInvert := False\<rparr>) e' s"
    using assms f by (simp add: handleMouseLeave_filled slide_defs animation_neq vb_distinct)
qed

lemma example_states:
  "\<not> isFilled idle_state" "isFilled filled_state"
  "\<not> hovered idle_state_hook" "hovered filled_state_hook"
  by (simp_all add: idle_state_def filled_state_def idle_state_hook_def filled_state_hook_def
      mount_def mount_hook_def useGSAP_setup_def initial_render_def)

theorem invert_swaps_directions_witness:
  "\<not> fillPin default_props
   \<and> getMouseEnterDirection near_top (target near_top) = Some DirTop
   \<and> getMouseEnterDirection near_bottom (target near_bottom) = Some (opposite DirTop)
   \<and> getMouseEnterDirection near_left (target near_left) = Some DirLeft
   \<and> getMouseEnterDirection near_right (target near_right) = Some (opposite DirLeft)
   \<and> \<not> isFilled idle_state \<and> isFilled filled_state
   \<and> handleMouseEnter (default_props\<lparr>fillInvert := True\<rparr>) near_top idle_state
       = handleMouseEnter (default_props\<lparr>fillInvert := False\<rparr>) near_bottom idle_state
   \<and> handleMouseLeave (default_props\<lparr>fillInvert := True\<rparr>) near_top filled_state
       = handleMouseLeave (default_props\<lparr>fillInvert := False\<rparr>) near_bottom filled_state
   \<and> handleMouseLeave (default_props\<lparr>fillInvert := True\<rparr>) near_left filled_state
       = handleMouseLeave (default_props\<lparr>fillInvert := False\<rparr>) near_left filled_state
   \<and> handleMouseLeave (default_props\<lparr>fillInvert := True\<rparr>) near_left filled_state
       \<noteq> handleMouseLeave (default_props\<lparr>fillInvert := False\<rparr>) near_right filled_state"
proof -
  have h1: "\<not> fillPin default_props" by (simp add: default_props_def)
  have t: "getMouseEnterDirection near_top (target near_top) = Some DirTop"
    and b: "getMouseEnterDirection near_bottom (target near_bottom) = Some (opposite DirTop)"
    and l: "getMouseEnterDirection near_left (target near_left) = Some DirLeft"
    and r: "getMouseEnterDirection near_right (target near_right) = Some (opposite DirLeft)"
    by (simp_all add: near_each_edge)
  note i = example_states(1) and f = example_states(2)
  from invert_swaps_directions [OF h1 t b, of idle_state] i
  have c1: "handleMouseEnter (default_props\<lparr>fillInvert := True\<rparr>) near_top idle_state
       = handleMouseEnter (default_props\<lparr>fillInvert := False\<rparr>) near_bottom idle_state"
    by blast
  from invert_swaps_directions [OF h1 t b, of filled_state] f
  have c2: "handleMouseLeave (default_props\<lparr>fillInvert := True\<rparr>) near_top filled_state
       = handleMouseLeave (default_props\<lparr>fillInvert := False\<rparr>) near_bottom filled_state"
    by blast
  from invert_swaps_directions [OF h1 l r, of filled_state] f
  have c3: "handleMouseLeave (default_props\<lparr>fillInvert := True\<rparr>) near_left filled_state
       = handleMouseLeave (default_props\<lparr>fillInvert := False\<rparr>) near_left filled_state
     \<and> handleMouseLeave (default_props\<lparr>fillInvert := True\<rparr>) near_left filled_state
       \<noteq> handleMouseLeave (default_props\<lparr>fillInvert := False\<rparr>) near_right filled_state"
    by metis
  from h1 t b l r i f c1 c2 c3 show ?thesis by blast
qed

section \<open>Pinning and the filled guard\<close>






section \<open>Focus and blur\<close>

lemma host_props_focus:
  "host_props p props OnFocus =
     (case props OnFocus of Some h \<Rightarrow> Some (CallerHandler h)
      | None \<Rightarrow> if fillOnTab p then Some HandleFocus else None)"
  "host_props p props OnBlur =
     (case props OnBlur of Some h \<Rightarrow> Some (CallerHandler h)
      | None \<Rightarrow> if fillOnTab p then Some HandleBlur else None)"
  by (simp_all add: host_props_def map_add_def split: option.splits)

text \<open>
  C7, as stated, fails in two ways. The caller's own props are spread last: with the
  tab-animation flag on and a caller's \<^verbatim>\<open>onFocus\<close>, the host's focus listener is the
  caller's and not the component's, and with the flag off and a caller's \<^verbatim>\<open>onFocus\<close>
  the host still has a focus listener. And when pinned, the focus handler called from
  the idle state sets the filled state but starts no transition.
\<close>

theorem focus_blur_counterexample:
  "fillOnTab tab_props
   \<and> host_props tab_props [OnFocus \<mapsto> 0] OnFocus = Some (CallerHandler 0)
   \<and> \<not> fillOnTab default_props
   \<and> host_props default_props [OnFocus \<mapsto> 0] OnFocus = Some (CallerHandler 0)
   \<and> \<not> isFilled (mount pinned_tab_props)
   \<and> isFilled (handleFocus pinned_tab_props (mount pinned_tab_props))
   \<and> runs (handleFocus pinned_tab_props (mount pinned_tab_props)) = []"
  by (simp add: host_props_focus tab_props_def default_props_def pinned_tab_props_def
      handleFocus_def mount_def useGSAP_setup_def initial_render_def Let_def)

text \<open>
  C7, amended. The component's focus handler is the host's focus listener if and only if
  the tab-animation flag is on and the caller's own props define no \<^verbatim>\<open>onFocus\<close>; the
  same for blur and \<^verbatim>\<open>onBlur\<close>; a focus or blur event reaches the component's handler in
  that case only. When not pinned, the focus handler called in the idle state plays the
  up-in transition and the blur handler called in the filled state plays the down-out
  transition, whatever \<^verbatim>\<open>fillTabEnter\<close> and \<^verbatim>\<open>fillTabLeave\<close> are.
\<close>

theorem focus_blur_fixed_transitions:
  "(host_props p props OnFocus = Some HandleFocus \<longleftrightarrow> fillOnTab p \<and> props OnFocus = None)
   \<and> (host_props p props OnBlur = Some HandleBlur \<longleftrightarrow> fillOnTab p \<and> props OnBlur = None)
   \<and> dispatch p props FocusEv s
        = (if fillOnTab p \<and> props OnFocus = None then handleFocus p s else s)
   \<and> dispatch p props BlurEv s
        = (if fillOnTab p \<and> props OnBlur = None then handleBlur p s else s)
   \<and> (\<not> fillPin p \<and> \<not> isFilled s \<longrightarrow>
        handleFocus (p\<lparr>fillTabEnter := te, fillTabLeave := tlv\<rparr>) s
          = slideUpIn p (s\<lparr>isFilled := True\<rparr>))
   \<and> (\<not> fillPin p \<and> isFilled s \<longrightarrow>
        handleBlur (p\<lparr>fillTabEnter := te, fillTabLeave := tlv\<rparr>) s
          = slideDownOut p (s\<lparr>isFilled := False\<rparr>))"
  by (auto simp: host_props_focus dispatch_def handleFocus_def handleBlur_def Let_def slide_defs
      split: option.splits)

theorem focus_blur_fixed_transitions_witness:
  "\<not> fillPin tab_props \<and> \<not> isFilled idle_state
   \<and> handleFocus (tab_props\<lparr>fillTabEnter := TabLeft, fillTabLeave := TabRight\<rparr>) idle_state
       = slideUpIn tab_props (idle_state\<lparr>isFilled := True\<rparr>)
   \<and> isFilled filled_state
   \<and> handleBlur (tab_props\<lparr>fillTabEnter := TabLeft, fillTabLeave := TabRight\<rparr>) filled_state
       = slideDownOut tab_props (filled_state\<lparr>isFilled := False\<rparr>)"
proof -
  have h: "\<not> fillPin tab_props" by (simp add: tab_props_def default_props_def)
  from focus_blur_fixed_transitions [where p = tab_props and props = Map.empty
      and s = idle_state and te = TabLeft and tlv = TabRight]
    h example_states(1)
  have c1: "handleFocus (tab_props\<lparr>fillTabEnter := TabLeft, fillTabLeave := TabRight\<rparr>) idle_state
       = slideUpIn tab_props (idle_state\<lparr>isFilled := True\<rparr>)"
    by blast
  from focus_blur_fixed_transitions [where p = tab_props and props = Map.empty
      and s = filled_state and te = TabLeft and tlv = TabRight]
    h example_states(2)
  have c2: "handleBlur (tab_props\<lparr>fillTabEnter := TabLeft, fillTabLeave := TabRight\<rparr>) filled_state
       = slideDownOut tab_props (filled_state\<lparr>isFilled := False\<rparr>)"
    by blast
  from h example_states(1,2) c1 c2 show ?thesis by blast
qed

section \<open>The two components compared\<close>

lemma driver_calls_update [simp]:
  "driver_calls (ws\<lparr>isFilled := b\<rparr>) = driver_calls ws"
  "driver_calls (hs\<lparr>hovered := b\<rparr>) = driver_calls hs"
  by (simp_all add: driver_calls_def)

lemma animation_fields [simp]:
  "isFilled (animation p a b c ws) = isFilled ws"
  "svg_viewBox (animation p a b c s) = svg_viewBox s"
  "path_d (animation p a b c s) = path_d s"
  "hovered (animation_hook hp a b c hs) = hovered hs"
  "svg_viewBox (animation_hook hp a b c s) = svg_viewBox s"
  "path_d (animation_hook hp a b c s) = path_d s"
  by (simp_all add: animation_def animation_hook_def Let_def)

lemma same_overlay_mount: "same_overlay (mount p) (mount_hook (hook_props_of p))"
  by (simp add: same_overlay_def mount_def mount_hook_def useGSAP_setup_def initial_render_def
      vbInit_def hook_props_of_def driver_calls_def)

text \<open>One event keeps the two components in step, when the wrapper's handler sees the
  current flag, the wrapper does not invert and the detector returns a direction.\<close>

lemma same_overlay_step:
  assumes "same_overlay ws hs" and "\<not> fillInvert p" and "detects ev"
  shows "same_overlay (wrapper_step p ws ev) (hook_step (hook_props_of p) hs ev)"
proof -
  from assms(3) obtain d where
    d: "getMouseEnterDirection (event_of ev) (target (event_of ev)) = Some d"
    by (auto simp: detects_def)
  have pin: "pinned (hook_props_of p) = fillPin p" by (simp add: hook_props_of_def)
  show ?thesis
    using assms(1,2) d
    by (cases ev; cases d)
       (simp_all add: same_overlay_def handleMouseEnter_def handleMouseLeave_def
          handleMouseEnter_hook_def handleMouseLeave_hook_def pin Let_def slide_defs
          slide_hook_defs driver_calls_animation driver_calls_animation_hook)
qed

text \<open>An event followed by a render: the handler saw the current flag, and the next
  handlers see the one it set.\<close>

lemma handle_then_render:
  assumes "closure_isFilled w = isFilled (held w)"
  shows "instance_step p (instance_step p w (Handle ev)) Rerender
       = \<lparr>closure_isFilled = isFilled (wrapper_step p (held w) ev),
          held = wrapper_step p (held w) ev\<rparr>"
proof -
  have same: "(held w)\<lparr>isFilled := closure_isFilled w\<rparr> = held w"
    using assms by simp
  have keep: "isFilled s = isFilled (held w) \<Longrightarrow> s\<lparr>isFilled := isFilled (held w)\<rparr> = s"
    for s :: wrapper_state by (cases s) simp
  show ?thesis
    using assms by (simp add: Let_def same keep)
qed

lemma same_overlay_run:
  "closure_isFilled w = isFilled (held w) \<Longrightarrow> same_overlay (held w) hs \<Longrightarrow>
   \<not> fillInvert p \<Longrightarrow> list_all detects evs \<Longrightarrow>
   closure_isFilled (foldl (instance_step p) w (rendered_after_each evs))
     = isFilled (held (foldl (instance_step p) w (rendered_after_each evs)))
   \<and> same_overlay (held (foldl (instance_step p) w (rendered_after_each evs)))
        (foldl (hook_step (hook_props_of p)) hs evs)"
proof (induction evs arbitrary: w hs)
  case Nil
  then show ?case by (simp add: rendered_after_each_def)
next
  case (Cons ev evs)
  let ?w = "\<lparr>closure_isFilled = isFilled (wrapper_step p (held w) ev),
            held = wrapper_step p (held w) ev\<rparr>"
  have step: "foldl (instance_step p) w (rendered_after_each (ev # evs))
      = foldl (instance_step p) ?w (rendered_after_each evs)"
    using handle_then_render [OF Cons.prems(1), of p ev]
    by (simp add: rendered_after_each_def)
  have "same_overlay (held ?w) (hook_step (hook_props_of p) hs ev)"
    using Cons.prems by (simp add: same_overlay_step)
  with Cons.IH [of ?w "hook_step (hook_props_of p) hs ev"] Cons.prems
  show ?case unfolding step by simp
qed

lemma run_values:
  "driver_calls (held (run_wrapper inverted_props (rendered_after_each [Enter near_top])))
     = [(vbBottom, vbCenter, convexTopPath)]"
  "driver_calls (run_hook (hook_props_of inverted_props) [Enter near_top])
     = [(vbTop, vbCenter, convexBottomPath)]"
  "driver_calls (held (run_wrapper default_props (rendered_after_each [Enter no_position])))
     = [(vbRight, vbCenter, convexLeftPath)]"
  "driver_calls (run_hook (hook_props_of default_props) [Enter no_position]) = []"
  by (simp_all add: run_wrapper_def run_hook_def rendered_after_each_def mount_instance_def
      mount_def mount_hook_def useGSAP_setup_def
      initial_render_def vbInit_def hook_props_of_def inverted_props_def default_props_def
      handleMouseEnter_def handleMouseEnter_hook_def near_each_edge Let_def slide_defs
      slide_hook_defs driver_calls_animation driver_calls_animation_hook)
     (simp_all add: driver_calls_def)

text \<open>Enter and leave handled by the handlers of one render: the leave handler still
  reads the flag as false and returns at its guard.\<close>

lemma stale_run_values:
  "isFilled (held (run_wrapper default_props
      [Handle (Enter near_top), Handle (Leave near_top), Rerender]))"
  "driver_calls (held (run_wrapper default_props
      [Handle (Enter near_top), Handle (Leave near_top), Rerender]))
     = [(vbTop, vbCenter, convexBottomPath)]"
  "\<not> hovered (run_hook (hook_props_of default_props) [Enter near_top, Leave near_top])"
  "driver_calls (run_hook (hook_props_of default_props) [Enter near_top, Leave near_top])
     = [(vbTop, vbCenter, convexBottomPath), (vbCenter, vbTop, concaveBottomPath)]"
  by (simp_all add: run_wrapper_def run_hook_def mount_instance_def
      mount_def mount_hook_def useGSAP_setup_def
      initial_render_def vbInit_def hook_props_of_def default_props_def
      handleMouseEnter_def handleMouseLeave_def handleMouseEnter_hook_def
      handleMouseLeave_hook_def near_each_edge Let_def slide_defs
      slide_hook_defs driver_calls_animation driver_calls_animation_hook)
     (simp_all add: driver_calls_def)

text \<open>
  C9, as stated, fails. With the wrapper's invert flag set, a pointer entering at the top
  makes the wrapper call the driver for the up-in transition and the hook component,
  which has no direction inversion, for the down-in transition. For a pointer event
  without a position, where the detector returns no direction, the wrapper falls into
  its last branch and plays the right-in transition while the hook component plays
  nothing. And when an enter and a leave are both handled before the wrapper renders
  again, its leave handler still reads the flag of the last render and returns: the
  wrapper ends filled after one driver call, the hook component, whose flag is a ref,
  ends not filled after two.
\<close>

theorem variants_differ_counterexample:
  "driver_calls (held (run_wrapper inverted_props (rendered_after_each [Enter near_top])))
     \<noteq> driver_calls (run_hook (hook_props_of inverted_props) [Enter near_top])
   \<and> driver_calls (held (run_wrapper default_props (rendered_after_each [Enter no_position])))
     \<noteq> driver_calls (run_hook (hook_props_of default_props) [Enter no_position])
   \<and> isFilled (held (run_wrapper default_props
        [Handle (Enter near_top), Handle (Leave near_top), Rerender]))
     \<noteq> hovered (run_hook (hook_props_of default_props) [Enter near_top, Leave near_top])
   \<and> driver_calls (held (run_wrapper default_props
        [Handle (Enter near_top), Handle (Leave near_top), Rerender]))
     \<noteq> driver_calls (run_hook (hook_props_of default_props) [Enter near_top, Leave near_top])"
  by (simp add: run_values stale_run_values vb_distinct)

text \<open>
  C9, amended. For every configuration in which the wrapper's invert flag is off, and
  every sequence of pointer enter and leave events, each run by the components' own
  handlers and each with a direction returned by the detector, such that the wrapper
  renders again after each event before the next one is handled, the wrapper and the
  hook component with the same values reach the same filled state and call the
  animation driver with the same arguments in the same order.
\<close>

theorem variants_agree:
  assumes "\<not> fillInvert p" and "list_all detects evs"
  shows "isFilled (held (run_wrapper p (rendered_after_each evs)))
           = hovered (run_hook (hook_props_of p) evs)
       \<and> closure_isFilled (run_wrapper p (rendered_after_each evs))
           = hovered (run_hook (hook_props_of p) evs)
       \<and> driver_calls (held (run_wrapper p (rendered_after_each evs)))
           = driver_calls (run_hook (hook_props_of p) evs)"
proof -
  have "closure_isFilled (mount_instance p) = isFilled (held (mount_instance p))"
    and "same_overlay (held (mount_instance p)) (mount_hook (hook_props_of p))"
    by (simp_all add: mount_instance_def same_overlay_mount)
  from same_overlay_run [OF this assms]
  show ?thesis by (simp add: run_wrapper_def run_hook_def same_overlay_def)
qed

theorem variants_agree_witness:
  "\<not> fillInvert default_props
   \<and> list_all detects [Enter near_top, Enter near_left, Leave near_right, Leave near_top]
   \<and> isFilled (held (run_wrapper default_props (rendered_after_each
         [Enter near_top, Enter near_left, Leave near_right, Leave near_top])))
       = hovered (run_hook (hook_props_of default_props)
         [Enter near_top, Enter near_left, Leave near_right, Leave near_top])
   \<and> driver_calls (held (run_wrapper default_props (rendered_after_each
         [Enter near_top, Enter near_left, Leave near_right, Leave near_top])))
       = driver_calls (run_hook (hook_props_of default_props)
         [Enter near_top, Enter near_left, Leave near_right, Leave near_top])"
proof -
  have h1: "\<not> fillInvert default_props" by (simp add: default_props_def)
  have h2: "list_all detects [Enter near_top, Enter near_left, Leave near_right, Leave near_top]"
    by (simp add: detects_def near_each_edge)
  from h1 h2 variants_agree [OF h1 h2] show ?thesis by blast
qed

section \<open>The overlay at mount\<close>

lemma parse_squarePath:
  "parse_path squarePath =
     Some ((0, 0), [((50, 0), (100, 0)), ((100, 50), (100, 100)),
                    ((50, 100), (0, 100)), ((0, 50), (0, 0))])"
  by (simp add: parse_path_def squarePath_def digit_of_def)

text \<open>
  C10. Mounted without pinning, both components have the viewBox \<^verbatim>\<open>0 101 100 100\<close> and
  the neutral square path, and have started no animation. Every point of the square's
  outline has a \<open>y\<close> smaller than the smallest \<open>y\<close> of the window, so the square lies
  outside the visible window. Mounted with pinning, both have the centre viewBox \<^verbatim>\<open>0 0 100 100\<close> and the
  square path, whose outline is the border of that window: the square covers it.
\<close>

theorem initial_overlay:
  "(\<not> fillPin p \<longrightarrow>
      svg_viewBox (mount p) = ''0 101 100 100'' \<and> path_d (mount p) = Some squarePath
      \<and> runs (mount p) = [] \<and> above_window squarePath (svg_viewBox (mount p)))
   \<and> (\<not> pinned hp \<longrightarrow>
      svg_viewBox (mount_hook hp) = ''0 101 100 100'' \<and> path_d (mount_hook hp) = Some squarePath
      \<and> runs (mount_hook hp) = [] \<and> above_window squarePath (svg_viewBox (mount_hook hp)))
   \<and> (fillPin p \<longrightarrow>
      svg_viewBox (mount p) = ''0 0 100 100'' \<and> path_d (mount p) = Some squarePath
      \<and> covers_window squarePath (svg_viewBox (mount p)))
   \<and> (pinned hp \<longrightarrow>
      svg_viewBox (mount_hook hp) = ''0 0 100 100'' \<and> path_d (mount_hook hp) = Some squarePath
      \<and> covers_window squarePath (svg_viewBox (mount_hook hp)))"
  by (simp add: mount_def mount_hook_def useGSAP_setup_def initial_render_def vbInit_def
      above_window_def covers_window_def parse_squarePath parse_viewBox_constants)
     (simp add: vbTop_def vbCenter_def)

theorem initial_overlay_witness:
  "\<not> fillPin default_props
   \<and> svg_viewBox (mount default_props) = ''0 101 100 100''
   \<and> above_window squarePath (svg_viewBox (mount default_props))
   \<and> \<not> pinned (hook_props_of default_props)
   \<and> svg_viewBox (mount_hook (hook_props_of default_props)) = ''0 101 100 100''
   \<and> fillPin pinned_props
   \<and> svg_viewBox (mount pinned_props) = ''0 0 100 100''
   \<and> covers_window squarePath (svg_viewBox (mount pinned_props))
   \<and> pinned (hook_props_of pinned_props)
   \<and> svg_viewBox (mount_hook (hook_props_of pinned_props)) = ''0 0 100 100''"
proof -
  have h1: "\<not> fillPin default_props" and h2: "\<not> pinned (hook_props_of default_props)"
    and h3: "fillPin pinned_props" and h4: "pinned (hook_props_of pinned_props)"
    by (simp_all add: default_props_def pinned_props_def hook_props_of_def)
  from h1 h2 h3 h4
    initial_overlay [of default_props "hook_props_of default_props"]
    initial_overlay [of pinned_props "hook_props_of pinned_props"]
  show ?thesis by blast
qed


end
